theory Spec2Isabelle
  imports Main "HOL-Library.Word" "HOL-Library.Multiset"
begin

unbundle bit_operations_syntax

section \<open>Bytes, failures and the base64 codec\<close>

text \<open>
  The backend (\<^verbatim>\<open>backend/server.py\<close>) moves image data around as Python \<^verbatim>\<open>bytes\<close> and as
  base64 text. A byte is an 8-bit word, a Python \<^verbatim>\<open>str\<close> of ASCII text is a \<open>string\<close>.

  Every exception that a library call of the pipeline can raise is a value
  \<open>Failure cls msg\<close>: the exception's class name and \<^verbatim>\<open>str(e)\<close>.
\<close>

type_synonym byte = "8 word"
type_synonym bytes = "byte list"

datatype failure = Failure (cls: string) (msg: string)

text \<open>
  \<^verbatim>\<open>base64.b64encode\<close> (the standard alphabet of RFC 4648, \<^verbatim>\<open>=\<close> padding, no line
  breaks): three bytes become four characters; a last group of one or two bytes is
  padded to four characters.
\<close>

definition table_b2a_base64 :: string where
  "table_b2a_base64 =
     ''ABCDEFGHIJKLMNOPQRSTUVWXYZabcdefghijklmnopqrstuvwxyz0123456789+/''"

definition b2a :: "byte \<Rightarrow> char" where
  "b2a v = table_b2a_base64 ! unat v"

definition BASE64_PAD :: char where
  "BASE64_PAD = CHR ''=''"

fun b64encode :: "bytes \<Rightarrow> string" where
  "b64encode (b0 # b1 # b2 # rest) =
     b2a (drop_bit 2 b0) #
     b2a (push_bit 4 (b0 AND 3) OR drop_bit 4 b1) #
     b2a (push_bit 2 (b1 AND 15) OR drop_bit 6 b2) #
     b2a (b2 AND 63) # b64encode rest"
| "b64encode [b0, b1] =
     [b2a (drop_bit 2 b0),
      b2a (push_bit 4 (b0 AND 3) OR drop_bit 4 b1),
      b2a (push_bit 2 (b1 AND 15)),
      BASE64_PAD]"
| "b64encode [b0] =
     [b2a (drop_bit 2 b0), b2a (push_bit 4 (b0 AND 3)), BASE64_PAD, BASE64_PAD]"
| "b64encode [] = []"

text \<open>
  \<^verbatim>\<open>base64.b64decode(s)\<close> with its default \<^verbatim>\<open>validate=False\<close>. A \<^verbatim>\<open>str\<close> argument must be
  ASCII (\<^verbatim>\<open>ValueError\<close> otherwise). The decoder then reads the characters left to right:
  a character outside the alphabet is discarded, \<open>quad_pos\<close> counts the characters of the
  current group of four, \<open>leftchar\<close> holds the bits not yet written, and a run of padding
  that completes a group ends the decoding. A group left incomplete at the end of the
  input raises \<^verbatim>\<open>binascii.Error\<close>; for one character too many the message counts the
  data characters from the bytes written so far.
\<close>

fun index_of :: "'a \<Rightarrow> 'a list \<Rightarrow> nat option" where
  "index_of x [] = None"
| "index_of x (y # ys) = (if x = y then Some 0 else map_option Suc (index_of x ys))"

definition table_a2b_base64 :: "char \<Rightarrow> byte option" where
  "table_a2b_base64 c = map_option of_nat (index_of c table_b2a_base64)"

text \<open>The decimal digits of a number, as \<^verbatim>\<open>%d\<close> prints it, and the quote character of
  Python's messages.\<close>

fun show_nat :: "nat \<Rightarrow> string" where
  "show_nat n =
     (if n < 10 then [char_of (48 + n)]
      else show_nat (n div 10) @ [char_of (48 + n mod 10)])"

definition quoted :: "string \<Rightarrow> string" where
  "quoted s = [CHR 0x27] @ s @ [CHR 0x27]"

definition invalid_length :: "nat \<Rightarrow> failure" where
  "invalid_length n = Failure ''binascii.Error''
     (''Invalid base64-encoded string: number of data characters ('' @ show_nat n @
      '') cannot be 1 more than a multiple of 4'')"

definition incorrect_padding :: failure where
  "incorrect_padding = Failure ''binascii.Error'' ''Incorrect padding''"

definition non_ascii :: failure where
  "non_ascii = Failure ''ValueError'' ''string argument should contain only ASCII characters''"

fun a2b_base64 :: "nat \<Rightarrow> byte \<Rightarrow> nat \<Rightarrow> string \<Rightarrow> bytes \<Rightarrow> failure + bytes" where
  "a2b_base64 quad_pos leftchar pads [] bin_data =
     (if quad_pos \<noteq> 0
      then (if quad_pos = 1 then Inl (invalid_length (length bin_data div 3 * 4 + 1))
            else Inl incorrect_padding)
      else Inr bin_data)"
| "a2b_base64 quad_pos leftchar pads (this_ch # ascii_data) bin_data =
     (if this_ch = BASE64_PAD then
        (if quad_pos \<ge> 2 \<and> quad_pos + (pads + 1) \<ge> 4 then Inr bin_data
         else a2b_base64 quad_pos leftchar (if quad_pos \<ge> 2 then pads + 1 else pads)
                ascii_data bin_data)
      else
        (case table_a2b_base64 this_ch of
           None \<Rightarrow> a2b_base64 quad_pos leftchar pads ascii_data bin_data
         | Some v \<Rightarrow>
             (if quad_pos = 0 then a2b_base64 1 v 0 ascii_data bin_data
              else if quad_pos = 1 then
                a2b_base64 2 (v AND 15) 0 ascii_data
                  (bin_data @ [push_bit 2 leftchar OR drop_bit 4 v])
              else if quad_pos = 2 then
                a2b_base64 3 (v AND 3) 0 ascii_data
                  (bin_data @ [push_bit 4 leftchar OR drop_bit 2 v])
              else
                a2b_base64 0 0 0 ascii_data (bin_data @ [push_bit 6 leftchar OR v]))))"

definition b64decode :: "string \<Rightarrow> failure + bytes" where
  "b64decode s =
     (if \<exists>c \<in> set s. of_char c \<ge> (128 :: nat) then Inl non_ascii
      else a2b_base64 0 0 0 s [])"

text \<open>
  \<^verbatim>\<open>image_to_base64\<close> takes either a path, whose file it reads, or the bytes themselves.
  The file system is a map from paths to contents; opening a missing file raises.
\<close>

datatype path_or_bytes = PathArg string | BytesArg bytes

definition file_not_found :: "string \<Rightarrow> failure" where
  "file_not_found p =
     Failure ''FileNotFoundError'' (''[Errno 2] No such file or directory: '' @ quoted p)"

definition image_to_base64 :: "(string \<rightharpoonup> bytes) \<Rightarrow> path_or_bytes \<Rightarrow> failure + string" where
  "image_to_base64 fs image_path_or_bytes =
     (case image_path_or_bytes of
        PathArg p \<Rightarrow>
          (case fs p of None \<Rightarrow> Inl (file_not_found p) | Some content \<Rightarrow> Inr (b64encode content))
      | BytesArg bs \<Rightarrow> Inr (b64encode bs))"

text \<open>The characters the encoder can write: the alphabet and the padding character.\<close>

definition b64_char :: "char \<Rightarrow> bool" where
  "b64_char c \<longleftrightarrow> c = BASE64_PAD \<or> (\<exists>v < 64. c = b2a v)"




section \<open>The mask rasterizer\<close>

text \<open>
  \<^verbatim>\<open>create_mask\<close> parses the form field \<^verbatim>\<open>mask_data\<close> with \<^verbatim>\<open>json.loads\<close> and iterates over
  the value it gets. A JSON value, as Python sees it: a number without fraction or
  exponent is an \<^verbatim>\<open>int\<close>, any other number a \<^verbatim>\<open>float\<close>; a string is ASCII text; an object
  is the list of its items in order.

  A \<^verbatim>\<open>float\<close> is a double: \<open>Finite m k\<close> is the number \<open>m * 2 ^ k\<close>, and \<^verbatim>\<open>json.loads\<close> also
  reads \<^verbatim>\<open>Infinity\<close>, \<^verbatim>\<open>-Infinity\<close> and \<^verbatim>\<open>NaN\<close>.
\<close>

datatype pyfloat = Finite int int | Infinity | MinusInfinity | NaN

datatype json =
    JNull
  | JBool bool
  | JNum int
  | JFloat pyfloat
  | JStr string
  | JArr "json list"
  | JObj "(string \<times> json) list"

definition type_name :: "json \<Rightarrow> string" where
  "type_name v =
     (case v of JNull \<Rightarrow> ''NoneType'' | JBool _ \<Rightarrow> ''bool'' | JNum _ \<Rightarrow> ''int''
      | JFloat _ \<Rightarrow> ''float'' | JStr _ \<Rightarrow> ''str'' | JArr _ \<Rightarrow> ''list''
      | JObj _ \<Rightarrow> ''dict'')"

text \<open>\<^verbatim>\<open>for coords in mask_coords\<close>: the elements of a list, the characters of a string, the keys
  of a dict; any other value is not iterable.\<close>

definition py_iter :: "json \<Rightarrow> failure + json list" where
  "py_iter v =
     (case v of
        JArr xs \<Rightarrow> Inr xs
      | JStr s \<Rightarrow> Inr (map (\<lambda>c. JStr [c]) s)
      | JObj kvs \<Rightarrow> Inr (map (\<lambda>kv. JStr (fst kv)) kvs)
      | _ \<Rightarrow> Inl (Failure ''TypeError'' (quoted (type_name v) @ '' object is not iterable'')))"

text \<open>\<^verbatim>\<open>len(coords)\<close>\<close>

definition py_len :: "json \<Rightarrow> failure + nat" where
  "py_len v =
     (case v of
        JArr xs \<Rightarrow> Inr (length xs)
      | JStr s \<Rightarrow> Inr (length s)
      | JObj kvs \<Rightarrow> Inr (length kvs)
      | _ \<Rightarrow> Inl (Failure ''TypeError''
                 (''object of type '' @ quoted (type_name v) @ '' has no len()'')))"

text \<open>
  A PIL image of mode \<^verbatim>\<open>L\<close>: one byte per pixel, stored as rows. \<^verbatim>\<open>Image.new(mode, size, 0)\<close>
  fills every pixel with the colour given.
\<close>

record image =
  im_mode :: string
  im_size :: "nat \<times> nat"
  im_rows :: "byte list list"

definition Image_new :: "string \<Rightarrow> nat \<times> nat \<Rightarrow> byte \<Rightarrow> image" where
  "Image_new mode sz color =
     \<lparr>im_mode = mode, im_size = sz,
      im_rows = replicate (snd sz) (replicate (fst sz) color)\<rparr>"

definition getpixel :: "image \<Rightarrow> nat \<Rightarrow> nat \<Rightarrow> byte option" where
  "getpixel im x y =
     (if y < length (im_rows im) \<and> x < length (im_rows im ! y)
      then Some (im_rows im ! y ! x) else None)"

text \<open>
  \<^verbatim>\<open>ImageDraw.rectangle(xy, fill)\<close>, the fill primitive, as \<^verbatim>\<open>create_mask\<close> calls it: on an
  entry of four or more items. What PIL does here depends in four places on its
  version or on the C platform, and these are parameters:
  \<^item> \<open>checks_order\<close>: recent versions raise \<^verbatim>\<open>ValueError\<close> for corners out of order, older
    ones swap them;
  \<^item> \<open>rejects\<close>: the exception raised for an argument that is not a list of numbers
    (a string, the keys of a dict, a list with an item that is no number; where a
    pair of numbers is taken as an item, four or more items give too many points);
  \<^item> \<open>float_of_long\<close>: an \<^verbatim>\<open>int\<close> is converted to a C \<^verbatim>\<open>float\<close>, which is exact up to \<open>2 ^ 24\<close>
    and rounds beyond;
  \<^item> \<open>int_of_double\<close>: a coordinate is cast to a C \<^verbatim>\<open>int\<close>, which rounds toward zero and
    is not defined by C for a double with no \<^verbatim>\<open>int\<close> value.
\<close>

record pil =
  checks_order :: bool
  rejects :: "json \<Rightarrow> failure"
  float_of_long :: "int \<Rightarrow> pyfloat"
  int_of_double :: "pyfloat \<Rightarrow> int"

text \<open>The items that PIL reads as one coordinate each: \<^verbatim>\<open>float\<close>, \<^verbatim>\<open>int\<close> and \<^verbatim>\<open>bool\<close> (an
  \<^verbatim>\<open>int\<close> in Python).\<close>

definition as_double :: "pil \<Rightarrow> json \<Rightarrow> pyfloat option" where
  "as_double p v =
     (case v of
        JFloat f \<Rightarrow> Some f
      | JNum n \<Rightarrow> Some (if \<bar>n\<bar> \<le> 2 ^ 24 then Finite n 0 else float_of_long p n)
      | JBool b \<Rightarrow> Some (Finite (if b then 1 else 0) 0)
      | _ \<Rightarrow> None)"

text \<open>\<^verbatim>\<open><\<close> on doubles: false whenever \<^verbatim>\<open>NaN\<close> is compared.\<close>

fun less_double :: "pyfloat \<Rightarrow> pyfloat \<Rightarrow> bool" where
  "less_double (Finite m1 k1) (Finite m2 k2) \<longleftrightarrow>
     m1 * 2 ^ nat (k1 - min k1 k2) < m2 * 2 ^ nat (k2 - min k1 k2)"
| "less_double (Finite m k) Infinity \<longleftrightarrow> True"
| "less_double MinusInfinity (Finite m k) \<longleftrightarrow> True"
| "less_double MinusInfinity Infinity \<longleftrightarrow> True"
| "less_double _ _ \<longleftrightarrow> False"

text \<open>\<open>m * 2 ^ k\<close> rounded toward zero, and the cast \<^verbatim>\<open>(int)\<close> of a double.\<close>

definition toward_zero :: "int \<Rightarrow> int \<Rightarrow> int" where
  "toward_zero m k =
     (if k \<ge> 0 then m * 2 ^ nat k
      else if m \<ge> 0 then m div 2 ^ nat (- k)
      else - ((- m) div 2 ^ nat (- k)))"

definition c_int :: "pil \<Rightarrow> pyfloat \<Rightarrow> int" where
  "c_int p d =
     (case d of
        Finite m k \<Rightarrow>
          if - (2 ^ 31) \<le> toward_zero m k \<and> toward_zero m k < 2 ^ 31 then toward_zero m k
          else int_of_double p d
      | _ \<Rightarrow> int_of_double p d)"

text \<open>
  The two corner points are both inside the filled box, and the box is clipped to
  the image.
\<close>

definition inside :: "int \<Rightarrow> int \<Rightarrow> int \<Rightarrow> int \<Rightarrow> nat \<Rightarrow> nat \<Rightarrow> bool" where
  "inside x0 y0 x1 y1 x y \<longleftrightarrow>
     min x0 x1 \<le> int x \<and> int x \<le> max x0 x1 \<and> min y0 y1 \<le> int y \<and> int y \<le> max y0 y1"

definition fill_row :: "(nat \<Rightarrow> bool) \<Rightarrow> byte \<Rightarrow> byte list \<Rightarrow> byte list" where
  "fill_row sel ink row = map (\<lambda>(x, p). if sel x then ink else p) (zip [0..<length row] row)"

definition draw_rectangle :: "image \<Rightarrow> int \<Rightarrow> int \<Rightarrow> int \<Rightarrow> int \<Rightarrow> byte \<Rightarrow> image" where
  "draw_rectangle im x0 y0 x1 y1 ink =
     im\<lparr>im_rows :=
          map (\<lambda>(y, row). fill_row (\<lambda>x. inside x0 y0 x1 y1 x y) ink row)
            (zip [0..<length (im_rows im)] (im_rows im))\<rparr>"

definition wrong_number :: failure where
  "wrong_number = Failure ''ValueError'' ''wrong number of coordinates''"

definition bad_coordinates :: failure where
  "bad_coordinates = Failure ''TypeError'' ''coordinate list must contain exactly 2 coordinates''"

definition rectangle :: "pil \<Rightarrow> image \<Rightarrow> json \<Rightarrow> byte \<Rightarrow> failure + image" where
  "rectangle p im xy fill =
     (case xy of
        JArr items \<Rightarrow>
          (case those (map (as_double p) items) of
             None \<Rightarrow> Inl (rejects p xy)
           | Some ds \<Rightarrow>
               if odd (length ds) then Inl wrong_number
               else
                 (case ds of
                    [x0, y0, x1, y1] \<Rightarrow>
                      if checks_order p \<and> less_double x1 x0
                        then Inl (Failure ''ValueError'' ''x1 must be greater than or equal to x0'')
                      else if checks_order p \<and> less_double y1 y0
                        then Inl (Failure ''ValueError'' ''y1 must be greater than or equal to y0'')
                      else Inr (draw_rectangle im (c_int p x0) (c_int p y0)
                                  (c_int p x1) (c_int p y1) fill)
                  | _ \<Rightarrow> Inl bad_coordinates))
      | _ \<Rightarrow> Inl (rejects p xy))"

text \<open>
  The loop of \<^verbatim>\<open>create_mask\<close>: an entry with fewer than four values is passed over, any
  other entry goes to the fill primitive, and the first exception ends the loop.
\<close>

fun draw_all :: "pil \<Rightarrow> json list \<Rightarrow> image \<Rightarrow> failure + image" where
  "draw_all p [] mask_image = Inr mask_image"
| "draw_all p (coords # mask_coords) mask_image =
     (case py_len coords of
        Inl e \<Rightarrow> Inl e
      | Inr n \<Rightarrow>
          if n \<ge> 4 then
            (case rectangle p mask_image coords 255 of
               Inl e \<Rightarrow> Inl e
             | Inr mask_image' \<Rightarrow> draw_all p mask_coords mask_image')
          else draw_all p mask_coords mask_image)"

section \<open>The store, the upload directory and the outside world\<close>

text \<open>
  The documents of the three collections. A \<^verbatim>\<open>datetime\<close> is a number of microseconds,
  and so is the processing time (the source converts the difference of two of them
  to seconds).
\<close>

type_synonym datetime = int

record AgeVerification =
  verified :: bool
  av_timestamp :: datetime

record image_record =
  img_id :: string
  img_filename :: string
  img_original_name :: string
  img_content_type :: string
  img_size :: nat
  img_base64_data :: string
  img_timestamp :: datetime

record ImageEditRequest =
  req_id :: string
  req_operation_type :: string
  req_prompt :: string
  req_timestamp :: datetime

record ImageEditResponse =
  resp_id :: string
  result_image_base64 :: string
  resp_operation_type :: string
  processing_time :: int

record edit_document =
  ed_id :: string
  ed_operation_type :: string
  ed_prompt :: string
  ed_timestamp :: datetime
  ed_result_image_base64 :: string
  ed_processing_time :: int

text \<open>\<^verbatim>\<open>{**edit_record.dict(), **response.dict()}\<close>: where both have a key, the response's
  value stands.\<close>

definition merge_dicts :: "ImageEditRequest \<Rightarrow> ImageEditResponse \<Rightarrow> edit_document" where
  "merge_dicts edit_record response =
     \<lparr>ed_id = resp_id response,
      ed_operation_type = resp_operation_type response,
      ed_prompt = req_prompt edit_record,
      ed_timestamp = req_timestamp edit_record,
      ed_result_image_base64 = result_image_base64 response,
      ed_processing_time = processing_time response\<rparr>"

text \<open>
  What is sent to the inference provider: the \<^verbatim>\<open>input\<close> dict of \<^verbatim>\<open>replicate_client.run\<close>.
  An open file is the bytes it holds; a float keeps its literal. The provider answers
  with one URL or a list of URLs.
\<close>

datatype input_value = PFile bytes | PStr string | PInt int | PFloat string

type_synonym provider_input = "(string \<times> input_value) list"

datatype provider_output = Url string | Urls "string list"

record client =
  api_token :: "string option"

text \<open>
  The state that a request can change: the three collections, the files on disk, the
  requests sent to the provider and the URLs fetched. \<open>tick\<close> counts the calls made to
  the outside world so far.
\<close>

record world =
  age_verifications :: "AgeVerification list"
  images :: "image_record list"
  image_edits :: "edit_document list"
  files :: "string \<rightharpoonup> bytes"
  provider_calls :: "(string \<times> provider_input) list"
  downloads :: "string list"
  tick :: nat

text \<open>
  What the outside world answers. Each answer may depend on the moment of the call
  (\<open>tick\<close>) as well as on its arguments, so that the same call can succeed once and fail
  later. \<open>image_open\<close> gives the size of the image that PIL reads from the bytes,
  \<open>png_save\<close> the PNG file that PIL writes for an image, \<open>pil_library\<close> the installed PIL.
\<close>

record env =
  uuid4 :: "nat \<Rightarrow> string"
  utcnow :: "nat \<Rightarrow> datetime"
  write_fails :: "nat \<Rightarrow> string \<Rightarrow> failure option"
  unlink_fails :: "nat \<Rightarrow> string \<Rightarrow> failure option"
  insert_fails :: "nat \<Rightarrow> string \<Rightarrow> failure option"
  find_fails :: "nat \<Rightarrow> string \<Rightarrow> failure option"
  provider_run :: "nat \<Rightarrow> client \<Rightarrow> string \<Rightarrow> provider_input \<Rightarrow> failure + provider_output"
  http_get :: "nat \<Rightarrow> string \<Rightarrow> failure + bytes"
  image_open :: "bytes \<Rightarrow> failure + nat \<times> nat"
  json_loads :: "string \<Rightarrow> failure + json"
  png_save :: "image \<Rightarrow> failure + bytes"
  pil_library :: pil

text \<open>
  A statement of a handler either gives a value or raises, and may change the world.
  \<open>and_then\<close> runs the next statement unless the first one raised.
\<close>

type_synonym 'a io = "world \<Rightarrow> (failure + 'a) \<times> world"

definition and_then :: "'a io \<Rightarrow> ('a \<Rightarrow> 'b io) \<Rightarrow> 'b io" where
  "and_then m k w = (case m w of (Inl e, w') \<Rightarrow> (Inl e, w') | (Inr x, w') \<Rightarrow> k x w')"

definition return :: "'a \<Rightarrow> 'a io" where
  "return x w = (Inr x, w)"

definition lift :: "failure + 'a \<Rightarrow> 'a io" where
  "lift r w = (r, w)"

definition next_tick :: "world \<Rightarrow> world" where
  "next_tick w = w\<lparr>tick := Suc (tick w)\<rparr>"

definition new_uuid4 :: "env \<Rightarrow> string io" where
  "new_uuid4 e w = (Inr (uuid4 e (tick w)), next_tick w)"

definition now :: "env \<Rightarrow> datetime io" where
  "now e w = (Inr (utcnow e (tick w)), next_tick w)"

definition UPLOAD_DIR :: string where
  "UPLOAD_DIR = ''uploads''"

definition in_upload_dir :: "string \<Rightarrow> string" where
  "in_upload_dir filename = UPLOAD_DIR @ ''/'' @ filename"

text \<open>\<^verbatim>\<open>async with aiofiles.open(path, 'wb') as f: await f.write(content)\<close>; a write that
  fails leaves no file.\<close>

definition write_file :: "env \<Rightarrow> string \<Rightarrow> bytes \<Rightarrow> unit io" where
  "write_file e path content w =
     (case write_fails e (tick w) path of
        Some err \<Rightarrow> (Inl err, next_tick w)
      | None \<Rightarrow> (Inr (), (next_tick w)\<lparr>files := (files w)(path \<mapsto> content)\<rparr>))"

text \<open>\<^verbatim>\<open>open(path, "rb")\<close>\<close>

definition open_rb :: "string \<Rightarrow> bytes io" where
  "open_rb path w =
     (case files w path of None \<Rightarrow> (Inl (file_not_found path), w) | Some content \<Rightarrow> (Inr content, w))"

text \<open>\<^verbatim>\<open>path.unlink(missing_ok=True)\<close>\<close>

definition unlink :: "env \<Rightarrow> string \<Rightarrow> unit io" where
  "unlink e path w =
     (case unlink_fails e (tick w) path of
        Some err \<Rightarrow> (Inl err, next_tick w)
      | None \<Rightarrow> (Inr (), (next_tick w)\<lparr>files := (files w)(path := None)\<rparr>))"

text \<open>\<^verbatim>\<open>replicate_client.run(model, input=...)\<close>: the request goes out, then the provider
  answers or the call raises.\<close>

definition run :: "env \<Rightarrow> client \<Rightarrow> string \<Rightarrow> provider_input \<Rightarrow> provider_output io" where
  "run e c model input w =
     (provider_run e (tick w) c model input,
      (next_tick w)\<lparr>provider_calls := provider_calls w @ [(model, input)]\<rparr>)"

text \<open>\<^verbatim>\<open>download_image_as_base64\<close>: \<open>http_get\<close> stands for the request and
  \<^verbatim>\<open>raise_for_status\<close> together.\<close>

definition download_image_as_base64 :: "env \<Rightarrow> string \<Rightarrow> string io" where
  "download_image_as_base64 e url w =
     (case http_get e (tick w) url of
        Inl err \<Rightarrow> (Inl err, (next_tick w)\<lparr>downloads := downloads w @ [url]\<rparr>)
      | Inr content \<Rightarrow> (Inr (b64encode content), (next_tick w)\<lparr>downloads := downloads w @ [url]\<rparr>))"

text \<open>\<^verbatim>\<open>insert_one\<close> on each of the three collections.\<close>

definition insert_age_verification :: "env \<Rightarrow> AgeVerification \<Rightarrow> unit io" where
  "insert_age_verification e d w =
     (case insert_fails e (tick w) ''age_verifications'' of
        Some err \<Rightarrow> (Inl err, next_tick w)
      | None \<Rightarrow> (Inr (), (next_tick w)\<lparr>age_verifications := age_verifications w @ [d]\<rparr>))"

definition insert_image :: "env \<Rightarrow> image_record \<Rightarrow> unit io" where
  "insert_image e d w =
     (case insert_fails e (tick w) ''images'' of
        Some err \<Rightarrow> (Inl err, next_tick w)
      | None \<Rightarrow> (Inr (), (next_tick w)\<lparr>images := images w @ [d]\<rparr>))"

definition insert_image_edit :: "env \<Rightarrow> edit_document \<Rightarrow> unit io" where
  "insert_image_edit e d w =
     (case insert_fails e (tick w) ''image_edits'' of
        Some err \<Rightarrow> (Inl err, next_tick w)
      | None \<Rightarrow> (Inr (), (next_tick w)\<lparr>image_edits := image_edits w @ [d]\<rparr>))"

text \<open>
  What a handler gives back to the framework: the value it returns, the
  \<^verbatim>\<open>HTTPException\<close> it raises (status code and detail), or an exception that leaves the
  handler uncaught.
\<close>

datatype 'a outcome = Returned 'a | HTTPException nat string | Uncaught failure

text \<open>\<^verbatim>\<open>try: ... except Exception as e: raise HTTPException(status_code=500,
  detail=f"<prefix>{str(e)}")\<close> around the statements \<open>body\<close>, and a handler body with no
  \<^verbatim>\<open>try\<close>.\<close>

definition try_except :: "string \<Rightarrow> 'a io \<Rightarrow> world \<Rightarrow> 'a outcome \<times> world" where
  "try_except prefix body w =
     (case body w of
        (Inl e, w') \<Rightarrow> (HTTPException 500 (prefix @ msg e), w')
      | (Inr x, w') \<Rightarrow> (Returned x, w'))"

definition no_try :: "'a io \<Rightarrow> world \<Rightarrow> 'a outcome \<times> world" where
  "no_try body w =
     (case body w of (Inl e, w') \<Rightarrow> (Uncaught e, w') | (Inr x, w') \<Rightarrow> (Returned x, w'))"

section \<open>The handlers\<close>

subsection \<open>Start of the process: the provider client\<close>

text \<open>
  \<^verbatim>\<open>try: replicate_client = replicate.Client(api_token=os.getenv("REPLICATE_API_KEY"))\<close>
  \<^verbatim>\<open>except Exception: replicate_client = None\<close>. The constructor belongs to the
  \<^verbatim>\<open>replicate\<close> package and is a parameter here; \<open>getenv\<close> is the process environment.
\<close>

definition init_replicate_client ::
    "(string option \<Rightarrow> failure + client) \<Rightarrow> (string \<rightharpoonup> string) \<Rightarrow> client option" where
  "init_replicate_client Client getenv =
     (case Client (getenv ''REPLICATE_API_KEY'') of Inl e \<Rightarrow> None | Inr c \<Rightarrow> Some c)"

text \<open>
  The constructor of the \<^verbatim>\<open>replicate\<close> package keeps the token it is given, \<^verbatim>\<open>None\<close>
  included, and raises nothing: the token is first looked at when a request is sent.
\<close>

definition replicate_Client :: "string option \<Rightarrow> failure + client" where
  "replicate_Client token = Inr \<lparr>api_token = token\<rparr>"

subsection \<open>\<^verbatim>\<open>POST /age-verify\<close>\<close>

record status_message =
  status :: string
  message :: string

definition age_verify ::
    "env \<Rightarrow> AgeVerification \<Rightarrow> world \<Rightarrow> status_message outcome \<times> world" where
  "age_verify e verification =
     no_try
       (and_then (insert_age_verification e verification) (\<lambda>_.
        return \<lparr>status = ''verified'', message = ''Age verification completed''\<rparr>))"

subsection \<open>\<^verbatim>\<open>POST /upload-image\<close>\<close>

text \<open>An uploaded part: the framework gives \<^verbatim>\<open>None\<close> for a file name or a content type
  that the request does not declare.\<close>

record UploadFile =
  filename :: "string option"
  content_type :: "string option"
  content :: bytes

record upload_response =
  up_id :: string
  up_filename :: string
  up_base64 :: string
  up_size :: nat

definition startswith :: "string \<Rightarrow> string \<Rightarrow> bool" where
  "startswith s p \<longleftrightarrow> take (length p) s = p"

text \<open>\<^verbatim>\<open>file.filename.split('.')[-1] if '.' in file.filename else 'jpg'\<close>\<close>

definition file_extension :: "string option \<Rightarrow> failure + string" where
  "file_extension name =
     (case name of
        None \<Rightarrow> Inl (Failure ''TypeError''
                  (''argument of type '' @ quoted ''NoneType'' @ '' is not iterable''))
      | Some n \<Rightarrow>
          Inr (if CHR ''.'' \<in> set n then rev (takeWhile (\<lambda>c. c \<noteq> CHR ''.'') (rev n))
               else ''jpg''))"

definition to_base64 :: "path_or_bytes \<Rightarrow> string io" where
  "to_base64 x w = (image_to_base64 (files w) x, w)"

definition upload_image ::
    "env \<Rightarrow> UploadFile \<Rightarrow> world \<Rightarrow> upload_response outcome \<times> world" where
  "upload_image e file =
     (case content_type file of
        None \<Rightarrow>
          (\<lambda>w. (Uncaught (Failure ''AttributeError''
                   (quoted ''NoneType'' @ '' object has no attribute '' @ quoted ''startswith'')),
                w))
      | Some ct \<Rightarrow>
          if \<not> startswith ct ''image/'' then
            (\<lambda>w. (HTTPException 400 ''File must be an image'', w))
          else
            no_try
              (and_then (new_uuid4 e) (\<lambda>file_id.
               and_then (lift (file_extension (filename file))) (\<lambda>extension.
               and_then (return (file_id @ ''.'' @ extension)) (\<lambda>stored_name.
               and_then (write_file e (in_upload_dir stored_name) (content file)) (\<lambda>_.
               and_then (to_base64 (BytesArg (content file))) (\<lambda>image_base64.
               and_then (now e) (\<lambda>timestamp.
               and_then (insert_image e
                  \<lparr>img_id = file_id, img_filename = stored_name,
                   img_original_name = the (filename file), img_content_type = ct,
                   img_size = length (content file), img_base64_data = image_base64,
                   img_timestamp = timestamp\<rparr>) (\<lambda>_.
               return \<lparr>up_id = file_id, up_filename = stored_name,
                        up_base64 = image_base64, up_size = length (content file)\<rparr>)))))))))"

subsection \<open>\<^verbatim>\<open>POST /create-mask\<close>\<close>

text \<open>
  The statements of \<^verbatim>\<open>create_mask\<close> up to the end of its loop give the mask as an image;
  the handler then saves it as PNG and encodes the file.
\<close>

definition create_mask_image :: "env \<Rightarrow> string \<Rightarrow> string \<Rightarrow> failure + image" where
  "create_mask_image e image_base64 mask_data =
     (case b64decode image_base64 of
        Inl err \<Rightarrow> Inl err
      | Inr image_data \<Rightarrow>
     (case image_open e image_data of
        Inl err \<Rightarrow> Inl err
      | Inr image_size \<Rightarrow>
     (case json_loads e mask_data of
        Inl err \<Rightarrow> Inl err
      | Inr mask_coords \<Rightarrow>
     (case py_iter mask_coords of
        Inl err \<Rightarrow> Inl err
      | Inr entries \<Rightarrow>
          draw_all (pil_library e) entries (Image_new ''L'' image_size 0)))))"

record mask_response =
  mask_png_base64 :: string

text \<open>The statements inside the \<^verbatim>\<open>try\<close> of \<^verbatim>\<open>create_mask\<close>, and the handler.\<close>

definition create_mask_steps :: "env \<Rightarrow> string \<Rightarrow> string \<Rightarrow> mask_response io" where
  "create_mask_steps e image_base64 mask_data =
     and_then (lift (create_mask_image e image_base64 mask_data)) (\<lambda>mask_image.
     and_then (lift (png_save e mask_image)) (\<lambda>png.
     return \<lparr>mask_png_base64 = b64encode png\<rparr>))"

definition create_mask ::
    "env \<Rightarrow> string \<Rightarrow> string \<Rightarrow> world \<Rightarrow> mask_response outcome \<times> world" where
  "create_mask e image_base64 mask_data =
     try_except ''Failed to create mask: '' (create_mask_steps e image_base64 mask_data)"

subsection \<open>The three edit operations\<close>

definition not_configured :: "'a outcome" where
  "not_configured =
     HTTPException 500 ''Replicate API not configured. Please set REPLICATE_API_KEY.''"

text \<open>\<^verbatim>\<open>UPLOAD_DIR / f"temp_image_{uuid.uuid4()}.png"\<close>\<close>

definition temp_path :: "env \<Rightarrow> string \<Rightarrow> string io" where
  "temp_path e stem =
     and_then (new_uuid4 e) (\<lambda>u. return (in_upload_dir (stem @ u @ ''.png'')))"

text \<open>\<^verbatim>\<open>output[0] if isinstance(output, list) else output\<close>\<close>

definition result_url :: "provider_output \<Rightarrow> failure + string" where
  "result_url output =
     (case output of
        Url u \<Rightarrow> Inr u
      | Urls [] \<Rightarrow> Inl (Failure ''IndexError'' ''list index out of range'')
      | Urls (u # _) \<Rightarrow> Inr u)"

text \<open>\<^verbatim>\<open>ImageEditRequest(operation_type=..., prompt=...)\<close>: the two default factories run,
  \<^verbatim>\<open>id\<close> first.\<close>

definition new_ImageEditRequest :: "env \<Rightarrow> string \<Rightarrow> string \<Rightarrow> ImageEditRequest io" where
  "new_ImageEditRequest e operation_type prompt =
     and_then (new_uuid4 e) (\<lambda>i.
     and_then (now e) (\<lambda>t.
     return \<lparr>req_id = i, req_operation_type = operation_type, req_prompt = prompt,
              req_timestamp = t\<rparr>))"

text \<open>
  The three edit handlers go on in the same way once the provider has answered
  (the statements from ``Download and convert result'' to the \<^verbatim>\<open>insert_one\<close>, which the
  source repeats in each handler with its own \<^verbatim>\<open>operation_type\<close>): download the result,
  measure the time, build the record and the response, insert.
\<close>

definition store_result ::
    "env \<Rightarrow> string \<Rightarrow> string \<Rightarrow> datetime \<Rightarrow> provider_output \<Rightarrow> ImageEditResponse io" where
  "store_result e operation_type prompt start_time output =
     and_then (lift (result_url output)) (\<lambda>url.
     and_then (download_image_as_base64 e url) (\<lambda>result_base64.
     and_then (now e) (\<lambda>end_time.
     and_then (new_ImageEditRequest e operation_type prompt) (\<lambda>edit_record.
     and_then (return \<lparr>resp_id = req_id edit_record, result_image_base64 = result_base64,
                         resp_operation_type = operation_type,
                         processing_time = end_time - start_time\<rparr>) (\<lambda>response.
     and_then (insert_image_edit e (merge_dicts edit_record response)) (\<lambda>_.
     return response))))))"

text \<open>The statements inside the \<^verbatim>\<open>try\<close> of each edit handler come first, then the handler:
  the check of \<^verbatim>\<open>replicate_client\<close> and the \<^verbatim>\<open>try\<close> with its prefix.\<close>

definition remove_object_steps ::
    "env \<Rightarrow> client \<Rightarrow> string \<Rightarrow> string \<Rightarrow> string \<Rightarrow> ImageEditResponse io" where
  "remove_object_steps e c image_base64 mask_base64 prompt =
     and_then (now e) (\<lambda>start_time.
     and_then (lift (b64decode image_base64)) (\<lambda>image_data.
     and_then (lift (b64decode mask_base64)) (\<lambda>mask_data.
     and_then (temp_path e ''temp_image_'') (\<lambda>image_path.
     and_then (temp_path e ''temp_mask_'') (\<lambda>mask_path.
     and_then (write_file e image_path image_data) (\<lambda>_.
     and_then (write_file e mask_path mask_data) (\<lambda>_.
     and_then (open_rb image_path) (\<lambda>image_file.
     and_then (open_rb mask_path) (\<lambda>mask_file.
     and_then (run e c ''zsxkib/flux-dev-inpainting''
                 [(''image'', PFile image_file), (''mask'', PFile mask_file),
                  (''prompt'', PStr prompt), (''strength'', PFloat ''0.95''),
                  (''guidance_scale'', PFloat ''7.5''),
                  (''num_inference_steps'', PInt 50)]) (\<lambda>output.
     and_then (store_result e ''remove_object'' prompt start_time output) (\<lambda>response.
     and_then (unlink e image_path) (\<lambda>_.
     and_then (unlink e mask_path) (\<lambda>_.
     return response)))))))))))))"

definition remove_object ::
    "env \<Rightarrow> client option \<Rightarrow> string \<Rightarrow> string \<Rightarrow> string \<Rightarrow> world
       \<Rightarrow> ImageEditResponse outcome \<times> world" where
  "remove_object e replicate_client image_base64 mask_base64 prompt =
     (case replicate_client of
        None \<Rightarrow> (\<lambda>w. (not_configured, w))
      | Some c \<Rightarrow>
          try_except ''Failed to remove object: ''
            (remove_object_steps e c image_base64 mask_base64 prompt))"

text \<open>\<^verbatim>\<open>if mask_base64:\<close> on an optional string\<close>

definition truthy :: "string option \<Rightarrow> bool" where
  "truthy s \<longleftrightarrow> (case s of None \<Rightarrow> False | Some t \<Rightarrow> t \<noteq> [])"

definition add_object_steps ::
    "env \<Rightarrow> client \<Rightarrow> string \<Rightarrow> string \<Rightarrow> string option \<Rightarrow> ImageEditResponse io" where
  "add_object_steps e c image_base64 prompt mask_base64 =
     and_then (now e) (\<lambda>start_time.
     and_then (lift (b64decode image_base64)) (\<lambda>image_data.
     and_then (temp_path e ''temp_image_'') (\<lambda>image_path.
     and_then (write_file e image_path image_data) (\<lambda>_.
     and_then (open_rb image_path) (\<lambda>image_file.
     and_then (return [(''image'', PFile image_file), (''prompt'', PStr prompt),
                       (''strength'', PFloat ''0.7''),
                       (''guidance_scale'', PFloat ''7.5''),
                       (''num_inference_steps'', PInt 50)]) (\<lambda>input_data.
     and_then
       (if truthy mask_base64 then
          and_then (lift (b64decode (the mask_base64))) (\<lambda>mask_data.
          and_then (temp_path e ''temp_mask_'') (\<lambda>mask_path.
          and_then (write_file e mask_path mask_data) (\<lambda>_.
          and_then (open_rb mask_path) (\<lambda>mask_file.
          return (input_data @ [(''mask'', PFile mask_file)],
                  ''zsxkib/flux-dev-inpainting'', Some mask_path)))))
        else return (input_data, ''black-forest-labs/flux-dev'', None))
       (\<lambda>(input_data, model, mask_path).
     and_then (run e c model input_data) (\<lambda>output.
     and_then (store_result e ''add_object'' prompt start_time output) (\<lambda>response.
     and_then (unlink e image_path) (\<lambda>_.
     and_then (case mask_path of None \<Rightarrow> return () | Some p \<Rightarrow> unlink e p) (\<lambda>_.
     return response)))))))))))"

definition add_object ::
    "env \<Rightarrow> client option \<Rightarrow> string \<Rightarrow> string \<Rightarrow> string option \<Rightarrow> world
       \<Rightarrow> ImageEditResponse outcome \<times> world" where
  "add_object e replicate_client image_base64 prompt mask_base64 =
     (case replicate_client of
        None \<Rightarrow> (\<lambda>w. (not_configured, w))
      | Some c \<Rightarrow>
          try_except ''Failed to add object: ''
            (add_object_steps e c image_base64 prompt mask_base64))"

definition text_guided_edit_steps ::
    "env \<Rightarrow> client \<Rightarrow> string \<Rightarrow> string \<Rightarrow> string option \<Rightarrow> ImageEditResponse io" where
  "text_guided_edit_steps e c image_base64 prompt negative_prompt =
     and_then (now e) (\<lambda>start_time.
     and_then (lift (b64decode image_base64)) (\<lambda>image_data.
     and_then (temp_path e ''temp_image_'') (\<lambda>image_path.
     and_then (write_file e image_path image_data) (\<lambda>_.
     and_then (open_rb image_path) (\<lambda>image_file.
     and_then (run e c ''timothybrooks/instruct-pix2pix''
                 [(''image'', PFile image_file), (''prompt'', PStr prompt),
                  (''num_inference_steps'', PInt 50),
                  (''image_guidance_scale'', PFloat ''1.2''),
                  (''guidance_scale'', PFloat ''7.5'')]) (\<lambda>output.
     and_then (store_result e ''text_guided_edit'' prompt start_time output) (\<lambda>response.
     and_then (unlink e image_path) (\<lambda>_.
     return response))))))))"

definition text_guided_edit ::
    "env \<Rightarrow> client option \<Rightarrow> string \<Rightarrow> string \<Rightarrow> string option \<Rightarrow> world
       \<Rightarrow> ImageEditResponse outcome \<times> world" where
  "text_guided_edit e replicate_client image_base64 prompt negative_prompt =
     (case replicate_client of
        None \<Rightarrow> (\<lambda>w. (not_configured, w))
      | Some c \<Rightarrow>
          try_except ''Failed to perform text-guided edit: ''
            (text_guided_edit_steps e c image_base64 prompt negative_prompt))"

subsection \<open>\<^verbatim>\<open>GET /edit-history\<close>\<close>

text \<open>
  \<^verbatim>\<open>db.image_edits.find().sort("timestamp", -1).limit(50).to_list(50)\<close>: the documents of the
  collection, latest first, the first fifty of them. (Documents of equal timestamp
  keep their order of insertion here; the store promises no order among them.)
\<close>

definition sort_descending :: "edit_document list \<Rightarrow> edit_document list" where
  "sort_descending docs = sort_key (\<lambda>d. - ed_timestamp d) docs"

definition find_edits :: "env \<Rightarrow> edit_document list io" where
  "find_edits e w =
     (case find_fails e (tick w) ''image_edits'' of
        Some err \<Rightarrow> (Inl err, next_tick w)
      | None \<Rightarrow> (Inr (take 50 (take 50 (sort_descending (image_edits w)))), next_tick w))"

record history_response =
  history :: "edit_document list"

definition get_edit_history :: "env \<Rightarrow> world \<Rightarrow> history_response outcome \<times> world" where
  "get_edit_history e =
     no_try (and_then (find_edits e) (\<lambda>edits. return \<lparr>history = edits\<rparr>))"

section \<open>Notions used to state the properties\<close>

text \<open>An image is well formed when it has as many rows as its height and every row as
  many pixels as its width.\<close>

definition well_formed :: "image \<Rightarrow> bool" where
  "well_formed im \<longleftrightarrow>
     length (im_rows im) = snd (im_size im) \<and>
     (\<forall>row \<in> set (im_rows im). length row = fst (im_size im))"

text \<open>
  The corners that the fill primitive draws for an entry: the four numbers of the
  entry, each cast to a C \<^verbatim>\<open>int\<close>. A pixel is covered by a list of entries when one of
  them has four numbers and the pixel lies inside its box.
\<close>

definition corners :: "pil \<Rightarrow> json \<Rightarrow> (int \<times> int \<times> int \<times> int) option" where
  "corners p entry =
     (case entry of
        JArr [a, b, c, d] \<Rightarrow>
          (case those (map (as_double p) [a, b, c, d]) of
             Some [x0, y0, x1, y1] \<Rightarrow> Some (c_int p x0, c_int p y0, c_int p x1, c_int p y1)
           | _ \<Rightarrow> None)
      | _ \<Rightarrow> None)"

definition covered :: "pil \<Rightarrow> json list \<Rightarrow> nat \<Rightarrow> nat \<Rightarrow> bool" where
  "covered p entries x y \<longleftrightarrow>
     (\<exists>entry \<in> set entries. \<exists>x0 y0 x1 y1.
        corners p entry = Some (x0, y0, x1, y1) \<and> inside x0 y0 x1 y1 x y)"

text \<open>
  An entry that the fill primitive draws: four numbers, with the corners in order
  where PIL checks the order. An entry that the loop accepts: one that has a length
  and is either shorter than four or drawn.
\<close>

definition drawable :: "pil \<Rightarrow> json \<Rightarrow> bool" where
  "drawable p entry \<longleftrightarrow>
     (case entry of
        JArr [a, b, c, d] \<Rightarrow>
          (case those (map (as_double p) [a, b, c, d]) of
             Some [x0, y0, x1, y1] \<Rightarrow>
               \<not> (checks_order p \<and> (less_double x1 x0 \<or> less_double y1 y0))
           | _ \<Rightarrow> False)
      | _ \<Rightarrow> False)"

definition accepted :: "pil \<Rightarrow> json \<Rightarrow> bool" where
  "accepted p entry \<longleftrightarrow>
     (case py_len entry of Inl _ \<Rightarrow> False | Inr n \<Rightarrow> n < 4 \<or> drawable p entry)"

subsection \<open>What a request does to the store and the network\<close>

text \<open>
  The part of the world that the claims about persistence speak of: the edit records,
  the requests sent to the provider and the URLs fetched. A statement is quiet when
  it leaves all three as they are. \<open>hoare P m Q\<close>: from a world whose observation
  satisfies \<open>P\<close>, the statement \<open>m\<close> ends with a result and an observation that
  satisfy \<open>Q\<close>.
\<close>

type_synonym observation = "edit_document list \<times> (string \<times> provider_input) list \<times> string list"

definition observe :: "world \<Rightarrow> observation" where
  "observe w = (image_edits w, provider_calls w, downloads w)"

definition quiet :: "'a io \<Rightarrow> bool" where
  "quiet m \<longleftrightarrow> (\<forall>w. observe (snd (m w)) = observe w)"

definition hoare ::
    "(observation \<Rightarrow> bool) \<Rightarrow> 'a io \<Rightarrow> (failure + 'a \<Rightarrow> observation \<Rightarrow> bool) \<Rightarrow> bool" where
  "hoare P m Q \<longleftrightarrow> (\<forall>w. P (observe w) \<longrightarrow> Q (fst (m w)) (observe (snd (m w))))"

text \<open>The three edit operations as one endpoint, for properties that hold of each.\<close>

datatype edit_request =
    RemoveObject string string string
  | AddObject string string "string option"
  | TextGuidedEdit string string "string option"

definition edit_endpoint ::
    "env \<Rightarrow> client option \<Rightarrow> edit_request \<Rightarrow> world \<Rightarrow> ImageEditResponse outcome \<times> world" where
  "edit_endpoint e replicate_client request =
     (case request of
        RemoveObject image_base64 mask_base64 prompt \<Rightarrow>
          remove_object e replicate_client image_base64 mask_base64 prompt
      | AddObject image_base64 prompt mask_base64 \<Rightarrow>
          add_object e replicate_client image_base64 prompt mask_base64
      | TextGuidedEdit image_base64 prompt negative_prompt \<Rightarrow>
          text_guided_edit e replicate_client image_base64 prompt negative_prompt)"

text \<open>
  The observation after a request, when an edit record has been written on top of the
  observation before it: one request went to the provider and was answered, the
  result URL was fetched, and the new record holds the encoding of what was fetched.
\<close>

definition stored_after_success ::
    "env \<Rightarrow> client \<Rightarrow> observation \<Rightarrow> observation \<Rightarrow> bool" where
  "stored_after_success e c before after \<longleftrightarrow>
     (case before of (E, C, D) \<Rightarrow> case after of (edits, calls, dls) \<Rightarrow>
        \<exists>t model input output url t' content d.
          calls = C @ [(model, input)] \<and> provider_run e t c model input = Inr output \<and>
          result_url output = Inr url \<and> dls = D @ [url] \<and>
          http_get e t' url = Inr content \<and> edits = E @ [d] \<and>
          ed_result_image_base64 d = b64encode content)"

text \<open>
  For each edit request: the prefix of its handler's error response, the statements
  inside the handler's \<^verbatim>\<open>try\<close>, and the base64 fields that the handler decodes.
\<close>

definition edit_prefix :: "edit_request \<Rightarrow> string" where
  "edit_prefix request =
     (case request of
        RemoveObject _ _ _ \<Rightarrow> ''Failed to remove object: ''
      | AddObject _ _ _ \<Rightarrow> ''Failed to add object: ''
      | TextGuidedEdit _ _ _ \<Rightarrow> ''Failed to perform text-guided edit: '')"

definition edit_steps :: "env \<Rightarrow> client \<Rightarrow> edit_request \<Rightarrow> ImageEditResponse io" where
  "edit_steps e c request =
     (case request of
        RemoveObject image_base64 mask_base64 prompt \<Rightarrow>
          remove_object_steps e c image_base64 mask_base64 prompt
      | AddObject image_base64 prompt mask_base64 \<Rightarrow>
          add_object_steps e c image_base64 prompt mask_base64
      | TextGuidedEdit image_base64 prompt negative_prompt \<Rightarrow>
          text_guided_edit_steps e c image_base64 prompt negative_prompt)"

definition image_field :: "edit_request \<Rightarrow> string" where
  "image_field request =
     (case request of
        RemoveObject image_base64 _ _ \<Rightarrow> image_base64
      | AddObject image_base64 _ _ \<Rightarrow> image_base64
      | TextGuidedEdit image_base64 _ _ \<Rightarrow> image_base64)"

definition mask_fields :: "edit_request \<Rightarrow> string list" where
  "mask_fields request =
     (case request of
        RemoveObject _ mask_base64 _ \<Rightarrow> [mask_base64]
      | AddObject _ _ mask_base64 \<Rightarrow> (if truthy mask_base64 then [the mask_base64] else [])
      | TextGuidedEdit _ _ _ \<Rightarrow> [])"

text \<open>
  A handler converts the failures of its statements when, from every world, a
  failure \<open>err\<close> raised by the statements gives the response of status 500 whose detail
  is the prefix followed by \<^verbatim>\<open>str(err)\<close>, and a value returned by the statements is the
  value the handler returns; the world is the one the statements left.
\<close>

definition converts :: "string \<Rightarrow> 'a io \<Rightarrow> (world \<Rightarrow> 'a outcome \<times> world) \<Rightarrow> bool" where
  "converts prefix steps handler \<longleftrightarrow>
     (\<forall>w err w'. steps w = (Inl err, w') \<longrightarrow>
        handler w = (HTTPException 500 (prefix @ msg err), w')) \<and>
     (\<forall>w x w'. steps w = (Inr x, w') \<longrightarrow> handler w = (Returned x, w'))"

text \<open>
  A request whose base64 fields all decode, and a world in which every write to a file
  succeeds.
\<close>

definition decodable :: "edit_request \<Rightarrow> bool" where
  "decodable request \<longleftrightarrow>
     (\<exists>image_data. b64decode (image_field request) = Inr image_data) \<and>
     (\<forall>mask_base64 \<in> set (mask_fields request). \<exists>mask_data. b64decode mask_base64 = Inr mask_data)"

definition writes_succeed :: "env \<Rightarrow> bool" where
  "writes_succeed e \<longleftrightarrow> (\<forall>t path. write_fails e t path = None)"

subsection \<open>A sample outside world\<close>

text \<open>
  A small world on which the handlers can be run: every file and store operation
  succeeds, an image file carries its width and height in its first two bytes, the
  JSON parser knows a few texts, PIL is a recent one, and the provider answers a client
  that has a token and turns away one that has none.
\<close>

definition sample_json :: "string \<Rightarrow> failure + json" where
  "sample_json s =
     (if s = ''[[25, 25, 75, 75]]'' then Inr (JArr [JArr [JNum 25, JNum 25, JNum 75, JNum 75]])
      else if s = ''[[1, 1, 2, 2], [0, 0]]''
        then Inr (JArr [JArr [JNum 1, JNum 1, JNum 2, JNum 2], JArr [JNum 0, JNum 0]])
      else if s = ''[[1, 1, 2, 2]]'' then Inr (JArr [JArr [JNum 1, JNum 1, JNum 2, JNum 2]])
      else if s = ''[[0.5, true, 2.75, 2]]''
        then Inr (JArr [JArr [JFloat (Finite 1 (- 1)), JBool True, JFloat (Finite 11 (- 2)), JNum 2]])
      else Inl (Failure ''JSONDecodeError'' ''Expecting value''))"

definition sample_image_open :: "bytes \<Rightarrow> failure + nat \<times> nat" where
  "sample_image_open bs =
     (case bs of
        a # b # _ \<Rightarrow> Inr (unat a, unat b)
      | _ \<Rightarrow> Inl (Failure ''UnidentifiedImageError'' ''cannot identify image file''))"

definition sample_pil :: pil where
  "sample_pil =
     \<lparr>checks_order = True,
      rejects = (\<lambda>_. Failure ''ValueError'' ''incorrect coordinate type''),
      float_of_long = (\<lambda>n. Finite n 0),
      int_of_double = (\<lambda>_. - (2 ^ 31))\<rparr>"

definition sample_env :: env where
  "sample_env =
     \<lparr>uuid4 = (\<lambda>n. replicate (Suc n) CHR ''u''),
      utcnow = (\<lambda>n. int n),
      write_fails = (\<lambda>_ _. None),
      unlink_fails = (\<lambda>_ _. None),
      insert_fails = (\<lambda>_ _. None),
      find_fails = (\<lambda>_ _. None),
      provider_run = (\<lambda>_ c _ _. case api_token c of
          None \<Rightarrow> Inl (Failure ''ReplicateError'' ''Unauthenticated'')
        | Some _ \<Rightarrow> Inr (Urls [''https://example.org/out.png''])),
      http_get = (\<lambda>_ _. Inr [1, 2, 3]),
      image_open = sample_image_open,
      json_loads = sample_json,
      png_save = (\<lambda>im. Inr (concat (im_rows im))),
      pil_library = sample_pil\<rparr>"

text \<open>A world in which nothing has happened yet, and an edit document to put into it.\<close>

definition empty_world :: world where
  "empty_world =
     \<lparr>age_verifications = [], images = [], image_edits = [], files = Map.empty,
      provider_calls = [], downloads = [], tick = 0\<rparr>"

definition sample_edit :: "datetime \<Rightarrow> edit_document" where
  "sample_edit t =
     \<lparr>ed_id = ''edit'', ed_operation_type = ''remove_object'', ed_prompt = ''remove the selected object'',
      ed_timestamp = t, ed_result_image_base64 = ''AQID'', ed_processing_time = 5\<rparr>"

text \<open>The same world with a store that cannot be reached, a client made without a token,
  and an upload that is not an image.\<close>

definition store_down :: failure where
  "store_down = Failure ''ServerSelectionTimeoutError'' ''No servers found yet''"

definition sample_env_store_down :: env where
  "sample_env_store_down = sample_env\<lparr>insert_fails := (\<lambda>_ _. Some store_down)\<rparr>"

definition no_token :: client where
  "no_token = \<lparr>api_token = None\<rparr>"

definition sample_upload :: UploadFile where
  "sample_upload = \<lparr>filename = Some ''notes.txt'', content_type = Some ''text/plain'', content = [104, 105]\<rparr>"

section \<open>Properties of the codec\<close>

subsection \<open>Six-bit groups\<close>

lemma small_masks:
  "(3::byte) = mask 2" "(15::byte) = mask 4" "(63::byte) = mask 6"
  by (simp_all add: mask_eq_exp_minus_1)

lemma shifted_index:
  "Suc (Suc (n - 2)) = (if 2 \<le> n then n else 2)"
  "4 + (n - 4) = (if 4 \<le> n then n else 4)"
  "6 + (n - 6) = (if 6 \<le> n then n else 6)" for n :: nat
  by (simp_all, arith)

lemma sextet_iff: "(v::byte) < 64 \<longleftrightarrow> take_bit 6 v = v"
  using mask_eq_iff_w2p[of 6 v] by (simp add: word_size take_bit_eq_mask)

lemma sextet_first: "drop_bit 2 (b::byte) < 64"
  unfolding sextet_iff by (rule bit_word_eqI) (auto simp: bit_simps dest: bit_imp_le_length)

lemma sextet_second: "push_bit 4 (b0 AND 3) OR drop_bit 4 (b1::byte) < 64"
  unfolding sextet_iff small_masks
  by (rule bit_word_eqI) (auto simp: bit_simps dest: bit_imp_le_length)

lemma sextet_third: "push_bit 2 (b1 AND 15) OR drop_bit 6 (b2::byte) < 64"
  unfolding sextet_iff small_masks
  by (rule bit_word_eqI) (auto simp: bit_simps dest: bit_imp_le_length)

lemma sextet_fourth: "(b2::byte) AND 63 < 64"
  unfolding sextet_iff small_masks by (rule bit_word_eqI) (auto simp: bit_simps)

lemma sextet_second_last: "push_bit 4 ((b0::byte) AND 3) < 64"
  unfolding sextet_iff small_masks by (rule bit_word_eqI) (auto simp: bit_simps)

lemma sextet_third_last: "push_bit 2 ((b1::byte) AND 15) < 64"
  unfolding sextet_iff small_masks by (rule bit_word_eqI) (auto simp: bit_simps)

lemma first_byte_back:
  "push_bit 2 (drop_bit 2 b0) OR drop_bit 4 (push_bit 4 (b0 AND 3) OR drop_bit 4 b1) = (b0::byte)"
  unfolding small_masks
  by (rule bit_word_eqI) (auto simp: bit_simps shifted_index dest: bit_imp_le_length)

lemma first_byte_back_last:
  "push_bit 2 (drop_bit 2 b0) OR drop_bit 4 (push_bit 4 (b0 AND 3)) = (b0::byte)"
  unfolding small_masks
  by (rule bit_word_eqI) (auto simp: bit_simps shifted_index dest: bit_imp_le_length)

lemma second_byte_back:
  "push_bit 4 ((push_bit 4 (b0 AND 3) OR drop_bit 4 b1) AND 15)
     OR drop_bit 2 (push_bit 2 (b1 AND 15) OR drop_bit 6 b2) = (b1::byte)"
  unfolding small_masks
  by (rule bit_word_eqI) (auto simp: bit_simps shifted_index dest: bit_imp_le_length)

lemma second_byte_back_last:
  "push_bit 4 ((push_bit 4 (b0 AND 3) OR drop_bit 4 b1) AND 15)
     OR drop_bit 2 (push_bit 2 (b1 AND 15)) = (b1::byte)"
  unfolding small_masks
  by (rule bit_word_eqI) (auto simp: bit_simps shifted_index dest: bit_imp_le_length)

lemma third_byte_back:
  "push_bit 6 ((push_bit 2 (b1 AND 15) OR drop_bit 6 b2) AND 3) OR (b2 AND 63) = (b2::byte)"
  unfolding small_masks
  by (rule bit_word_eqI) (auto simp: bit_simps shifted_index dest: bit_imp_le_length)

subsection \<open>The alphabet\<close>

lemma distinct_table: "distinct table_b2a_base64"
  by (simp add: table_b2a_base64_def)

lemma length_table: "length table_b2a_base64 = 64"
  by (simp add: table_b2a_base64_def)

lemma index_of_nth: "distinct xs \<Longrightarrow> n < length xs \<Longrightarrow> index_of (xs ! n) xs = Some n"
proof (induction xs arbitrary: n)
  case Nil
  then show ?case by simp
next
  case (Cons y ys)
  show ?case
  proof (cases n)
    case 0
    then show ?thesis by simp
  next
    case (Suc k)
    with Cons.prems have "k < length ys" "distinct ys" "ys ! k \<noteq> y"
      by auto
    with Cons.IH[of k] Suc show ?thesis by simp
  qed
qed

lemma b2a_in_table: "v < 64 \<Longrightarrow> b2a v \<in> set table_b2a_base64"
proof -
  assume "v < 64"
  then have "unat v < 64" by (simp add: word_less_nat_alt)
  then show ?thesis
    using nth_mem[of "unat v" table_b2a_base64] by (simp add: b2a_def length_table)
qed

lemma a2b_b2a: "v < 64 \<Longrightarrow> table_a2b_base64 (b2a v) = Some v"
proof -
  assume "v < 64"
  then have "unat v < 64" by (simp add: word_less_nat_alt)
  then show ?thesis
    by (simp add: table_a2b_base64_def b2a_def index_of_nth distinct_table length_table)
qed

lemma b2a_not_pad: "v < 64 \<Longrightarrow> b2a v \<noteq> BASE64_PAD"
proof -
  have "BASE64_PAD \<notin> set table_b2a_base64"
    by (simp add: table_b2a_base64_def BASE64_PAD_def)
  then show "v < 64 \<Longrightarrow> b2a v \<noteq> BASE64_PAD"
    using b2a_in_table[of v] by auto
qed

lemma b2a_ascii: "v < 64 \<Longrightarrow> (of_char (b2a v) :: nat) < 128"
proof -
  have "\<forall>c \<in> set table_b2a_base64. (of_char c :: nat) < 128"
    by (simp add: table_b2a_base64_def)
  then show "v < 64 \<Longrightarrow> (of_char (b2a v) :: nat) < 128"
    using b2a_in_table[of v] by auto
qed

subsection \<open>Decoding what the encoder wrote\<close>

lemma a2b_step:
  "v < 64 \<Longrightarrow> a2b_base64 q l p (b2a v # cs) out =
     (if q = 0 then a2b_base64 1 v 0 cs out
      else if q = 1 then a2b_base64 2 (v AND 15) 0 cs (out @ [push_bit 2 l OR drop_bit 4 v])
      else if q = 2 then a2b_base64 3 (v AND 3) 0 cs (out @ [push_bit 4 l OR drop_bit 2 v])
      else a2b_base64 0 0 0 cs (out @ [push_bit 6 l OR v]))"
  by (simp add: a2b_b2a b2a_not_pad)

lemma a2b_pad:
  "a2b_base64 3 l 0 (BASE64_PAD # cs) out = Inr out"
  "a2b_base64 2 l 0 (BASE64_PAD # BASE64_PAD # cs) out = Inr out"
  by simp_all

lemma a2b_base64_b64encode: "a2b_base64 0 l p (b64encode bs) out = Inr (out @ bs)"
proof (induction bs arbitrary: l p out rule: b64encode.induct)
  case (1 b0 b1 b2 rest)
  define c0 where "c0 = drop_bit 2 b0"
  define c1 where "c1 = push_bit 4 (b0 AND 3) OR drop_bit 4 b1"
  define c2 where "c2 = push_bit 2 (b1 AND 15) OR drop_bit 6 b2"
  define c3 where "c3 = b2 AND 63"
  have enc: "b64encode (b0 # b1 # b2 # rest) = b2a c0 # b2a c1 # b2a c2 # b2a c3 # b64encode rest"
    unfolding c0_def c1_def c2_def c3_def by (simp only: b64encode.simps)
  have lt: "c0 < 64" "c1 < 64" "c2 < 64" "c3 < 64"
    unfolding c0_def c1_def c2_def c3_def
    by (rule sextet_first sextet_second sextet_third sextet_fourth)+
  have dec: "push_bit 2 c0 OR drop_bit 4 c1 = b0"
    "push_bit 4 (c1 AND 15) OR drop_bit 2 c2 = b1"
    "push_bit 6 (c2 AND 3) OR c3 = b2"
    unfolding c0_def c1_def c2_def c3_def
    by (rule first_byte_back second_byte_back third_byte_back)+
  show ?case
    unfolding enc by (simp add: a2b_step lt dec [simplified] "1.IH" del: a2b_base64.simps)
next
  case (2 b0 b1)
  define c0 where "c0 = drop_bit 2 b0"
  define c1 where "c1 = push_bit 4 (b0 AND 3) OR drop_bit 4 b1"
  define c2 where "c2 = push_bit 2 (b1 AND 15)"
  have enc: "b64encode [b0, b1] = [b2a c0, b2a c1, b2a c2, BASE64_PAD]"
    unfolding c0_def c1_def c2_def by (simp only: b64encode.simps)
  have lt: "c0 < 64" "c1 < 64" "c2 < 64"
    unfolding c0_def c1_def c2_def by (rule sextet_first sextet_second sextet_third_last)+
  have dec: "push_bit 2 c0 OR drop_bit 4 c1 = b0"
    "push_bit 4 (c1 AND 15) OR drop_bit 2 c2 = b1"
    unfolding c0_def c1_def c2_def by (rule first_byte_back second_byte_back_last)+
  show ?case
    unfolding enc by (simp add: a2b_step a2b_pad lt dec [simplified] del: a2b_base64.simps)
next
  case (3 b0)
  define c0 where "c0 = drop_bit 2 b0"
  define c1 where "c1 = push_bit 4 (b0 AND 3)"
  have enc: "b64encode [b0] = [b2a c0, b2a c1, BASE64_PAD, BASE64_PAD]"
    unfolding c0_def c1_def by (simp only: b64encode.simps)
  have lt: "c0 < 64" "c1 < 64"
    unfolding c0_def c1_def by (rule sextet_first sextet_second_last)+
  have dec: "push_bit 2 c0 OR drop_bit 4 c1 = b0"
    unfolding c0_def c1_def by (rule first_byte_back_last)
  show ?case
    unfolding enc by (simp add: a2b_step a2b_pad lt dec [simplified] del: a2b_base64.simps)
next
  case 4
  show ?case by simp
qed

lemma b64encode_chars: "list_all b64_char (b64encode bs)"
proof (induction bs rule: b64encode.induct)
  case (1 b0 b1 b2 rest)
  have "b64_char (b2a (drop_bit 2 b0))"
    "b64_char (b2a (push_bit 4 (b0 AND 3) OR drop_bit 4 b1))"
    "b64_char (b2a (push_bit 2 (b1 AND 15) OR drop_bit 6 b2))"
    "b64_char (b2a (b2 AND 63))"
    unfolding b64_char_def
    using sextet_first sextet_second sextet_third sextet_fourth by blast+
  with 1 show ?case by (simp only: b64encode.simps list.pred_inject simp_thms)
next
  case (2 b0 b1)
  have "b64_char (b2a (drop_bit 2 b0))"
    "b64_char (b2a (push_bit 4 (b0 AND 3) OR drop_bit 4 b1))"
    "b64_char (b2a (push_bit 2 (b1 AND 15)))" "b64_char BASE64_PAD"
    unfolding b64_char_def using sextet_first sextet_second sextet_third_last by blast+
  then show ?case by (simp only: b64encode.simps list.pred_inject simp_thms)
next
  case (3 b0)
  have "b64_char (b2a (drop_bit 2 b0))" "b64_char (b2a (push_bit 4 (b0 AND 3)))"
    "b64_char BASE64_PAD"
    unfolding b64_char_def using sextet_first sextet_second_last by blast+
  then show ?case by (simp only: b64encode.simps list.pred_inject simp_thms)
next
  case 4
  show ?case by simp
qed

lemma b64_char_ascii: "b64_char c \<Longrightarrow> (of_char c :: nat) < 128"
  by (auto simp: b64_char_def b2a_ascii BASE64_PAD_def)

lemma b64decode_b64encode: "b64decode (b64encode bs) = Inr bs"
proof -
  have "\<forall>c \<in> set (b64encode bs). (of_char c :: nat) < 128"
    using b64encode_chars[of bs] by (auto simp: list_all_iff b64_char_ascii)
  then have "\<not> (\<exists>c \<in> set (b64encode bs). of_char c \<ge> (128 :: nat))"
    by (auto simp: not_le)
  then show ?thesis
    by (simp only: b64decode_def if_False a2b_base64_b64encode append_Nil)
qed

text \<open>
  Claim C4. Encoding any byte sequence with \<^verbatim>\<open>image_to_base64\<close> succeeds, and decoding the
  text it returns with \<^verbatim>\<open>base64.b64decode\<close> gives back exactly the original bytes.
\<close>

theorem image_bytes_round_trip:
  "image_to_base64 fs (BytesArg bs) = Inr (b64encode bs) \<and> b64decode (b64encode bs) = Inr bs"
  by (simp add: image_to_base64_def b64decode_b64encode)

section \<open>Properties of the mask rasterizer\<close>

lemma length_fill_row [simp]: "length (fill_row sel ink row) = length row"
  by (simp add: fill_row_def)

lemma nth_fill_row:
  "x < length row \<Longrightarrow> fill_row sel ink row ! x = (if sel x then ink else row ! x)"
  by (simp add: fill_row_def)

lemma draw_rectangle_frame [simp]:
  "im_mode (draw_rectangle im x0 y0 x1 y1 ink) = im_mode im"
  "im_size (draw_rectangle im x0 y0 x1 y1 ink) = im_size im"
  "length (im_rows (draw_rectangle im x0 y0 x1 y1 ink)) = length (im_rows im)"
  by (simp_all add: draw_rectangle_def)

lemma nth_rows_draw_rectangle:
  "y < length (im_rows im) \<Longrightarrow>
     im_rows (draw_rectangle im x0 y0 x1 y1 ink) ! y =
       fill_row (\<lambda>x. inside x0 y0 x1 y1 x y) ink (im_rows im ! y)"
  by (simp add: draw_rectangle_def)

lemma well_formed_draw_rectangle:
  "well_formed im \<Longrightarrow> well_formed (draw_rectangle im x0 y0 x1 y1 ink)"
  unfolding well_formed_def all_set_conv_all_nth
  by (simp add: nth_rows_draw_rectangle)

lemma getpixel_draw_rectangle:
  "getpixel (draw_rectangle im x0 y0 x1 y1 ink) x y =
     (case getpixel im x y of None \<Rightarrow> None
      | Some p \<Rightarrow> Some (if inside x0 y0 x1 y1 x y then ink else p))"
  by (simp add: getpixel_def nth_rows_draw_rectangle nth_fill_row)

lemma well_formed_new: "well_formed (Image_new mode sz color)"
  by (simp add: well_formed_def Image_new_def)

lemma getpixel_new:
  "getpixel (Image_new mode (w, h) color) x y = (if x < w \<and> y < h then Some color else None)"
  by (auto simp: getpixel_def Image_new_def)

lemma those_length: "those xs = Some ys \<Longrightarrow> length ys = length xs"
  by (induction xs arbitrary: ys) (auto split: option.splits)

lemma rectangle_iff:
  "rectangle p im xy ink = Inr im' \<longleftrightarrow>
     drawable p xy \<and>
     (\<exists>x0 y0 x1 y1. corners p xy = Some (x0, y0, x1, y1) \<and>
        im' = draw_rectangle im x0 y0 x1 y1 ink)"
proof (cases xy)
  case (JArr items)
  show ?thesis
  proof (cases "those (map (as_double p) items)")
    case None
    then show ?thesis
      by (auto simp: rectangle_def drawable_def corners_def JArr split: list.splits)
  next
    case (Some ds)
    from those_length[OF Some] have len: "length ds = length items" by simp
    show ?thesis
    proof (cases "length items = 4")
      case True
      then obtain a b c d where items: "items = [a, b, c, d]"
        by (auto simp: length_Suc_conv numeral_eq_Suc)
      with len obtain x0 y0 x1 y1 where ds: "ds = [x0, y0, x1, y1]"
        by (auto simp: length_Suc_conv numeral_eq_Suc)
      from Some show ?thesis
        unfolding rectangle_def drawable_def corners_def JArr items ds
        by (auto simp: ds)
    next
      case False
      with len have "\<And>x0 y0 x1 y1. ds \<noteq> [x0, y0, x1, y1]" by auto
      moreover from False have "\<And>a b c d. items \<noteq> [a, b, c, d]" by auto
      ultimately show ?thesis
        using Some unfolding rectangle_def drawable_def corners_def JArr
        by (auto split: list.splits)
    qed
  qed
qed (auto simp: rectangle_def drawable_def corners_def)

lemma corners_length: "corners p entry = Some q \<Longrightarrow> py_len entry = Inr 4"
  by (auto simp: corners_def py_len_def split: json.splits list.splits)

lemma drawable_length: "drawable p entry \<Longrightarrow> py_len entry = Inr 4"
  by (auto simp: drawable_def py_len_def split: json.splits list.splits)

lemma draw_all_frame:
  "draw_all p entries im = Inr im' \<Longrightarrow>
     im_mode im' = im_mode im \<and> im_size im' = im_size im \<and> (well_formed im \<longrightarrow> well_formed im')"
proof (induction entries arbitrary: im)
  case Nil
  then show ?case by simp
next
  case (Cons a entries)
  then show ?case
    by (auto split: sum.splits if_splits simp: rectangle_iff well_formed_draw_rectangle)
qed

lemma draw_all_pixels:
  "draw_all p entries im = Inr im' \<Longrightarrow>
     getpixel im' x y =
       (case getpixel im x y of None \<Rightarrow> None
        | Some v \<Rightarrow> Some (if covered p entries x y then 255 else v))"
proof (induction entries arbitrary: im)
  case Nil
  then show ?case by (simp add: covered_def split: option.splits)
next
  case (Cons a entries)
  from Cons.prems obtain n where n: "py_len a = Inr n"
    by (auto split: sum.splits)
  show ?case
  proof (cases "n \<ge> 4")
    case True
    with Cons.prems n obtain im1 where r: "rectangle p im a 255 = Inr im1"
      and rest: "draw_all p entries im1 = Inr im'"
      by (auto split: sum.splits)
    from r obtain x0 y0 x1 y1 where
      a: "corners p a = Some (x0, y0, x1, y1)"
      and im1: "im1 = draw_rectangle im x0 y0 x1 y1 255"
      unfolding rectangle_iff by blast
    have cov: "covered p (a # entries) x y \<longleftrightarrow> inside x0 y0 x1 y1 x y \<or> covered p entries x y"
      unfolding covered_def using a by auto
    show ?thesis
      unfolding Cons.IH[OF rest] im1 getpixel_draw_rectangle cov
      by (simp split: option.splits)
  next
    case False
    with Cons.prems n have rest: "draw_all p entries im = Inr im'"
      by simp
    have "corners p a = None"
      using n False corners_length[of p a] by (cases "corners p a") auto
    then have cov: "covered p (a # entries) x y \<longleftrightarrow> covered p entries x y"
      unfolding covered_def by auto
    show ?thesis
      unfolding Cons.IH[OF rest] cov by simp
  qed
qed

lemma draw_all_accepted:
  "(\<exists>im'. draw_all p entries im = Inr im') \<longleftrightarrow> list_all (accepted p) entries"
proof (induction entries arbitrary: im)
  case Nil
  then show ?case by simp
next
  case (Cons a entries)
  show ?case
  proof (cases "py_len a")
    case (Inl err)
    then show ?thesis by (simp add: accepted_def)
  next
    case (Inr n)
    show ?thesis
    proof (cases "n \<ge> 4")
      case True
      show ?thesis
      proof (cases "drawable p a")
        case d: True
        then obtain im1 where "rectangle p im a 255 = Inr im1"
          using rectangle_iff[of p im a 255] drawable_length[OF d]
          by (auto simp: drawable_def corners_def split: json.splits list.splits option.splits)
        with Inr True d Cons.IH[of im1] show ?thesis
          by (simp add: accepted_def)
      next
        case False
        then have "\<And>im1. rectangle p im a 255 \<noteq> Inr im1"
          by (simp add: rectangle_iff)
        with Inr True False show ?thesis
          by (auto simp: accepted_def split: sum.splits)
      qed
    next
      case False
      with Inr Cons.IH[of im] show ?thesis
        by (simp add: accepted_def)
    qed
  qed
qed

lemma draw_all_skip:
  "py_len entry = Inr n \<Longrightarrow> n < 4 \<Longrightarrow>
     draw_all p (before @ entry # after) im = draw_all p (before @ after) im"
  by (induction before arbitrary: im) (auto split: sum.splits)

lemma create_mask_image_eq:
  assumes "b64decode image_base64 = Inr image_data" "image_open e image_data = Inr sz"
    "json_loads e mask_data = Inr (JArr rects)"
  shows "create_mask_image e image_base64 mask_data =
           draw_all (pil_library e) rects (Image_new ''L'' sz 0)"
  using assms by (simp add: create_mask_image_def py_iter_def)

lemma create_mask_answer:
  "create_mask e image_base64 mask_data w =
     (case create_mask_image e image_base64 mask_data of
        Inl err \<Rightarrow> (HTTPException 500 (''Failed to create mask: '' @ msg err), w)
      | Inr m \<Rightarrow>
          (case png_save e m of
             Inl err \<Rightarrow> (HTTPException 500 (''Failed to create mask: '' @ msg err), w)
           | Inr png \<Rightarrow> (Returned \<lparr>mask_png_base64 = b64encode png\<rparr>, w)))"
  by (simp add: create_mask_def create_mask_steps_def try_except_def and_then_def lift_def
      return_def split: sum.splits)

lemma create_mask_world: "snd (create_mask e image_base64 mask_data w) = w"
  by (simp add: create_mask_answer split: sum.splits)

lemma as_double_small: "\<bar>n\<bar> \<le> 2 ^ 24 \<Longrightarrow> as_double p (JNum n) = Some (Finite n 0)"
  by (simp add: as_double_def)

lemma c_int_small: "\<bar>n\<bar> \<le> 2 ^ 24 \<Longrightarrow> c_int p (Finite n 0) = n"
proof -
  assume "\<bar>n\<bar> \<le> 2 ^ 24"
  then have "- (2 ^ 31) \<le> n \<and> n < 2 ^ 31" by (simp, linarith)
  then show ?thesis
    by (simp add: c_int_def toward_zero_def)
qed

lemma corners_integers:
  "\<bar>x0\<bar> \<le> 2 ^ 24 \<Longrightarrow> \<bar>y0\<bar> \<le> 2 ^ 24 \<Longrightarrow> \<bar>x1\<bar> \<le> 2 ^ 24 \<Longrightarrow> \<bar>y1\<bar> \<le> 2 ^ 24 \<Longrightarrow>
     corners p (JArr [JNum x0, JNum y0, JNum x1, JNum y1]) = Some (x0, y0, x1, y1)"
  by (simp add: corners_def as_double_small c_int_small)

text \<open>
  Claim C5. When the source image decodes to a 100 by 100 canvas and the rectangle list
  is \<^verbatim>\<open>[[25, 25, 75, 75]]\<close>, the loop of \<^verbatim>\<open>create_mask\<close> produces a 100 by 100 mask whose
  pixel at \<open>(x, y)\<close> is white (255) when \<open>25 \<le> x \<le> 75\<close> and \<open>25 \<le> y \<le> 75\<close>, both ends
  included, and black (0) everywhere else; and the handler returns the encoding of the
  PNG file of that mask, whenever PIL writes the file (if it does not, the answer is the
  500 response with the message of that failure).
\<close>

theorem mask_single_rectangle:
  assumes "b64decode image_base64 = Inr image_data"
    and "image_open e image_data = Inr (100, 100)"
    and "json_loads e mask_data = Inr (JArr [JArr [JNum 25, JNum 25, JNum 75, JNum 75]])"
  shows "\<exists>m. create_mask_image e image_base64 mask_data = Inr m \<and> im_size m = (100, 100) \<and>
           (\<forall>x<100. \<forall>y<100. getpixel m x y =
              Some (if 25 \<le> x \<and> x \<le> 75 \<and> 25 \<le> y \<and> y \<le> 75 then 255 else 0)) \<and>
           (\<forall>png. png_save e m = Inr png \<longrightarrow>
              create_mask e image_base64 mask_data w =
                (Returned \<lparr>mask_png_base64 = b64encode png\<rparr>, w)) \<and>
           (\<forall>err. png_save e m = Inl err \<longrightarrow>
              create_mask e image_base64 mask_data w =
                (HTTPException 500 (''Failed to create mask: '' @ msg err), w))"
proof -
  let ?entry = "JArr [JNum 25, JNum 25, JNum 75, JNum 75]"
  let ?new = "Image_new ''L'' (100, 100) 0"
  let ?p = "pil_library e"
  have eq: "create_mask_image e image_base64 mask_data = draw_all ?p [?entry] ?new"
    by (rule create_mask_image_eq[OF assms])
  have c: "corners ?p ?entry = Some (25, 25, 75, 75)"
    by (rule corners_integers) simp_all
  have "drawable ?p ?entry"
    by (simp add: drawable_def as_double_def)
  then have "list_all (accepted ?p) [?entry]"
    by (simp add: accepted_def py_len_def)
  then obtain m where m: "draw_all ?p [?entry] ?new = Inr m"
    using draw_all_accepted[of ?p "[?entry]" ?new] by blast
  have size: "im_size m = (100, 100)"
    using draw_all_frame[OF m] by (simp add: Image_new_def)
  have cov: "covered ?p [?entry] x y \<longleftrightarrow> 25 \<le> x \<and> x \<le> 75 \<and> 25 \<le> y \<and> y \<le> 75" for x y
    unfolding covered_def using c by (auto simp: inside_def)
  have pixels: "getpixel m x y = Some (if 25 \<le> x \<and> x \<le> 75 \<and> 25 \<le> y \<and> y \<le> 75 then 255 else 0)"
    if "x < 100" "y < 100" for x y
    using that unfolding draw_all_pixels[OF m] getpixel_new cov by simp
  have answer: "create_mask e image_base64 mask_data w =
      (case png_save e m of
         Inl err \<Rightarrow> (HTTPException 500 (''Failed to create mask: '' @ msg err), w)
       | Inr png \<Rightarrow> (Returned \<lparr>mask_png_base64 = b64encode png\<rparr>, w))"
    unfolding create_mask_answer eq m by simp
  have "\<forall>png. png_save e m = Inr png \<longrightarrow>
      create_mask e image_base64 mask_data w = (Returned \<lparr>mask_png_base64 = b64encode png\<rparr>, w)"
    and "\<forall>err. png_save e m = Inl err \<longrightarrow>
      create_mask e image_base64 mask_data w =
        (HTTPException 500 (''Failed to create mask: '' @ msg err), w)"
    unfolding answer by simp_all
  with eq m size pixels show ?thesis
    by (intro exI[of _ m]) simp
qed

theorem mask_single_rectangle_witness:
  "b64decode ''ZGQ='' = Inr [100, 100] \<and>
   image_open sample_env [100, 100] = Inr (100, 100) \<and>
   json_loads sample_env ''[[25, 25, 75, 75]]'' =
     Inr (JArr [JArr [JNum 25, JNum 25, JNum 75, JNum 75]]) \<and>
   (\<exists>m. create_mask_image sample_env ''ZGQ='' ''[[25, 25, 75, 75]]'' = Inr m \<and>
      im_size m = (100, 100) \<and>
      (\<forall>x<100. \<forall>y<100. getpixel m x y =
         Some (if 25 \<le> x \<and> x \<le> 75 \<and> 25 \<le> y \<and> y \<le> 75 then 255 else 0)) \<and>
      create_mask sample_env ''ZGQ='' ''[[25, 25, 75, 75]]'' empty_world =
        (Returned \<lparr>mask_png_base64 = b64encode (concat (im_rows m))\<rparr>, empty_world))"
proof -
  have a: "b64decode ''ZGQ='' = Inr [100, 100]"
    by code_simp
  have b: "image_open sample_env [100, 100] = Inr (100, 100)"
    by (simp add: sample_env_def sample_image_open_def)
  have c: "json_loads sample_env ''[[25, 25, 75, 75]]'' =
      Inr (JArr [JArr [JNum 25, JNum 25, JNum 75, JNum 75]])"
    by (simp add: sample_env_def sample_json_def)
  have d: "png_save sample_env m = Inr (concat (im_rows m))" for m
    by (simp add: sample_env_def)
  from mask_single_rectangle[OF a b c, of empty_world] d a b c show ?thesis
    by blast
qed


text \<open>
  Claim C8. For a source image that decodes to width \<open>w\<close> and height \<open>h\<close> and any list of
  entries (integers, floats and booleans as coordinates included): a mask is produced
  exactly when the loop accepts every entry; every mask produced is of the
  single-channel mode \<^verbatim>\<open>L\<close>, has size \<open>(w, h)\<close> with \<open>h\<close> rows of \<open>w\<close> pixels, and is black
  at every pixel that no entry covers (white at the others); whenever PIL writes the
  PNG file of the mask the handler returns its encoding; and a response of the handler
  is always the encoding of the PNG file of such a mask.
\<close>

theorem mask_has_source_size_and_starts_black:
  assumes "b64decode image_base64 = Inr image_data"
    and "image_open e image_data = Inr (w, h)"
    and "json_loads e mask_data = Inr (JArr rects)"
  shows "((\<exists>m. create_mask_image e image_base64 mask_data = Inr m) \<longleftrightarrow>
            list_all (accepted (pil_library e)) rects) \<and>
         (\<forall>m. create_mask_image e image_base64 mask_data = Inr m \<longrightarrow>
            im_mode m = ''L'' \<and> im_size m = (w, h) \<and>
            length (im_rows m) = h \<and> (\<forall>row \<in> set (im_rows m). length row = w) \<and>
            (\<forall>x<w. \<forall>y<h. getpixel m x y =
               Some (if covered (pil_library e) rects x y then 255 else 0))) \<and>
         (\<forall>m png. create_mask_image e image_base64 mask_data = Inr m \<and> png_save e m = Inr png \<longrightarrow>
            create_mask e image_base64 mask_data s =
              (Returned \<lparr>mask_png_base64 = b64encode png\<rparr>, s)) \<and>
         (\<forall>r s'. create_mask e image_base64 mask_data s = (Returned r, s') \<longrightarrow>
            (\<exists>m png. create_mask_image e image_base64 mask_data = Inr m \<and>
               png_save e m = Inr png \<and> mask_png_base64 r = b64encode png \<and> s' = s))"
proof -
  let ?new = "Image_new ''L'' (w, h) 0"
  let ?p = "pil_library e"
  have eq: "create_mask_image e image_base64 mask_data = draw_all ?p rects ?new"
    by (rule create_mask_image_eq[OF assms])
  have produced: "(\<exists>m. create_mask_image e image_base64 mask_data = Inr m) \<longleftrightarrow>
      list_all (accepted ?p) rects"
    unfolding eq by (rule draw_all_accepted)
  have shape: "im_mode m = ''L'' \<and> im_size m = (w, h) \<and>
      length (im_rows m) = h \<and> (\<forall>row \<in> set (im_rows m). length row = w) \<and>
      (\<forall>x<w. \<forall>y<h. getpixel m x y = Some (if covered ?p rects x y then 255 else 0))"
    if "create_mask_image e image_base64 mask_data = Inr m" for m
  proof -
    from that have m: "draw_all ?p rects ?new = Inr m"
      by (simp add: eq)
    from draw_all_frame[OF m] well_formed_new[of "''L''" "(w, h)" 0]
    have "im_mode m = ''L''" "im_size m = (w, h)" "well_formed m"
      by (simp_all add: Image_new_def)
    moreover have "getpixel m x y = Some (if covered ?p rects x y then 255 else 0)"
      if "x < w" "y < h" for x y
      using that unfolding draw_all_pixels[OF m] getpixel_new by simp
    ultimately show ?thesis
      by (simp add: well_formed_def)
  qed
  have returned: "create_mask e image_base64 mask_data s =
      (Returned \<lparr>mask_png_base64 = b64encode png\<rparr>, s)"
    if "create_mask_image e image_base64 mask_data = Inr m" "png_save e m = Inr png" for m png
    using that by (simp add: create_mask_answer)
  have response: "\<exists>m png. create_mask_image e image_base64 mask_data = Inr m \<and>
      png_save e m = Inr png \<and> mask_png_base64 r = b64encode png \<and> s' = s"
    if "create_mask e image_base64 mask_data s = (Returned r, s')" for r s'
    using that unfolding create_mask_answer by (auto split: sum.splits)
  from produced shape returned response show ?thesis by blast
qed

theorem mask_has_source_size_and_starts_black_witness:
  "b64decode ''BAM='' = Inr [4, 3] \<and>
   image_open sample_env [4, 3] = Inr (4, 3) \<and>
   json_loads sample_env ''[[0.5, true, 2.75, 2]]'' =
     Inr (JArr [JArr [JFloat (Finite 1 (- 1)), JBool True, JFloat (Finite 11 (- 2)), JNum 2]]) \<and>
   list_all (accepted (pil_library sample_env))
     [JArr [JFloat (Finite 1 (- 1)), JBool True, JFloat (Finite 11 (- 2)), JNum 2]] \<and>
   fst (create_mask sample_env ''BAM='' ''[[0.5, true, 2.75, 2]]'' empty_world) =
     Returned \<lparr>mask_png_base64 = ''AAAAAP///wD///8A''\<rparr> \<and>
   (\<exists>m. create_mask_image sample_env ''BAM='' ''[[0.5, true, 2.75, 2]]'' = Inr m \<and>
      im_mode m = ''L'' \<and> im_size m = (4, 3) \<and> length (im_rows m) = 3 \<and>
      (\<forall>row \<in> set (im_rows m). length row = 4) \<and>
      (\<forall>x<4. \<forall>y<3. getpixel m x y =
         Some (if covered (pil_library sample_env)
                    [JArr [JFloat (Finite 1 (- 1)), JBool True, JFloat (Finite 11 (- 2)), JNum 2]] x y
               then 255 else 0)) \<and>
      create_mask sample_env ''BAM='' ''[[0.5, true, 2.75, 2]]'' empty_world =
        (Returned \<lparr>mask_png_base64 = b64encode (concat (im_rows m))\<rparr>, empty_world))"
proof -
  let ?rects = "[JArr [JFloat (Finite 1 (- 1)), JBool True, JFloat (Finite 11 (- 2)), JNum 2]]"
  have a: "b64decode ''BAM='' = Inr [4, 3]"
    by code_simp
  have b: "image_open sample_env [4, 3] = Inr (4, 3)"
    by (simp add: sample_env_def sample_image_open_def)
  have c: "json_loads sample_env ''[[0.5, true, 2.75, 2]]'' = Inr (JArr ?rects)"
    by (simp add: sample_env_def sample_json_def)
  have d: "list_all (accepted (pil_library sample_env)) ?rects"
    by code_simp
  have r: "fst (create_mask sample_env ''BAM='' ''[[0.5, true, 2.75, 2]]'' empty_world) =
     Returned \<lparr>mask_png_base64 = ''AAAAAP///wD///8A''\<rparr>"
    by code_simp
  note t = mask_has_source_size_and_starts_black[OF a b c, of empty_world]
  from t[THEN conjunct1] d obtain m where
    m: "create_mask_image sample_env ''BAM='' ''[[0.5, true, 2.75, 2]]'' = Inr m"
    by blast
  have png: "png_save sample_env m = Inr (concat (im_rows m))"
    by (simp add: sample_env_def)
  from t[THEN conjunct2, THEN conjunct1] m
  have shape: "im_mode m = ''L'' \<and> im_size m = (4, 3) \<and> length (im_rows m) = 3 \<and>
      (\<forall>row \<in> set (im_rows m). length row = 4) \<and>
      (\<forall>x<4. \<forall>y<3. getpixel m x y =
         Some (if covered (pil_library sample_env) ?rects x y then 255 else 0))"
    by blast
  from t[THEN conjunct2, THEN conjunct2, THEN conjunct1] m png
  have ret: "create_mask sample_env ''BAM='' ''[[0.5, true, 2.75, 2]]'' empty_world =
        (Returned \<lparr>mask_png_base64 = b64encode (concat (im_rows m))\<rparr>, empty_world)"
    by blast
  from m shape ret have "\<exists>m. create_mask_image sample_env ''BAM='' ''[[0.5, true, 2.75, 2]]'' = Inr m \<and>
      im_mode m = ''L'' \<and> im_size m = (4, 3) \<and> length (im_rows m) = 3 \<and>
      (\<forall>row \<in> set (im_rows m). length row = 4) \<and>
      (\<forall>x<4. \<forall>y<3. getpixel m x y =
         Some (if covered (pil_library sample_env) ?rects x y then 255 else 0)) \<and>
      create_mask sample_env ''BAM='' ''[[0.5, true, 2.75, 2]]'' empty_world =
        (Returned \<lparr>mask_png_base64 = b64encode (concat (im_rows m))\<rparr>, empty_world)"
    by (intro exI[of _ m] conjI)
       (rule m shape[THEN conjunct1] shape[THEN conjunct2, THEN conjunct1]
          shape[THEN conjunct2, THEN conjunct2, THEN conjunct1]
          shape[THEN conjunct2, THEN conjunct2, THEN conjunct2, THEN conjunct1]
          shape[THEN conjunct2, THEN conjunct2, THEN conjunct2, THEN conjunct2] ret)+
  with a b c d r show ?thesis
    by (intro conjI)
qed

text \<open>
  Claim C9. An entry of the rectangle list that has fewer than four values is skipped:
  on its own it leaves the mask as it is, and the mask produced from the list (as well
  as the whole answer of the handler, an error included) is the one produced from the
  list without that entry.
\<close>

theorem short_entry_is_skipped:
  assumes "py_len entry = Inr n" and "n < 4"
    and "json_loads e with_entry = Inr (JArr (before @ entry # after))"
    and "json_loads e without_entry = Inr (JArr (before @ after))"
  shows "draw_all p [entry] im = Inr im \<and>
         create_mask_image e image_base64 with_entry =
           create_mask_image e image_base64 without_entry \<and>
         create_mask e image_base64 with_entry w = create_mask e image_base64 without_entry w"
proof -
  have one: "draw_all p [entry] im = Inr im"
    using assms(1,2) by simp
  have same: "create_mask_image e image_base64 with_entry =
      create_mask_image e image_base64 without_entry"
    using assms(3,4) draw_all_skip[OF assms(1,2)]
    by (simp add: create_mask_image_def py_iter_def split: sum.splits)
  show ?thesis
    using one same by (simp add: create_mask_def create_mask_steps_def)
qed

theorem short_entry_is_skipped_witness:
  "py_len (JArr [JNum 0, JNum 0]) = Inr 2 \<and> (2::nat) < 4 \<and>
   json_loads sample_env ''[[1, 1, 2, 2], [0, 0]]'' =
     Inr (JArr ([JArr [JNum 1, JNum 1, JNum 2, JNum 2]] @ JArr [JNum 0, JNum 0] # [])) \<and>
   json_loads sample_env ''[[1, 1, 2, 2]]'' = Inr (JArr ([JArr [JNum 1, JNum 1, JNum 2, JNum 2]] @ [])) \<and>
   create_mask_image sample_env ''BAM='' ''[[1, 1, 2, 2], [0, 0]]'' =
     create_mask_image sample_env ''BAM='' ''[[1, 1, 2, 2]]''"
proof -
  have a: "py_len (JArr [JNum 0, JNum 0]) = Inr 2"
    by (simp add: py_len_def)
  have b: "(2::nat) < 4" by simp
  have c: "json_loads sample_env ''[[1, 1, 2, 2], [0, 0]]'' =
     Inr (JArr ([JArr [JNum 1, JNum 1, JNum 2, JNum 2]] @ JArr [JNum 0, JNum 0] # []))"
    by (simp add: sample_env_def sample_json_def)
  have d: "json_loads sample_env ''[[1, 1, 2, 2]]'' =
     Inr (JArr ([JArr [JNum 1, JNum 1, JNum 2, JNum 2]] @ []))"
    by (simp add: sample_env_def sample_json_def)
  from a b c d short_entry_is_skipped[OF a b c d] show ?thesis by blast
qed

section \<open>Properties of the edit history\<close>

lemma get_edit_history_ok:
  "find_fails e (tick w) ''image_edits'' = None \<Longrightarrow>
     get_edit_history e w =
       (Returned \<lparr>history = take 50 (sort_descending (image_edits w))\<rparr>, next_tick w)"
  by (simp add: get_edit_history_def no_try_def and_then_def find_edits_def return_def)

lemma sorted_wrt_desc_iff:
  "sorted_wrt (\<lambda>a b. ed_timestamp a \<ge> ed_timestamp b) ds \<longleftrightarrow> sorted (map (\<lambda>d. - ed_timestamp d) ds)"
  by (induction ds) auto

lemma sort_descending_sorted:
  "sorted_wrt (\<lambda>a b. ed_timestamp a \<ge> ed_timestamp b) (sort_descending ds)"
  by (simp add: sorted_wrt_desc_iff sort_descending_def)

lemma mset_sort_descending: "mset (sort_descending ds) = mset ds"
  by (simp add: sort_descending_def)

lemma take_of_descending:
  assumes "sorted_wrt (\<lambda>a b. ed_timestamp a \<ge> ed_timestamp b) s"
  shows "sorted_wrt (\<lambda>a b. ed_timestamp a \<ge> ed_timestamp b) (take n s)"
    and "\<forall>d \<in> set (take n s). \<forall>d' \<in> set (drop n s). ed_timestamp d' \<le> ed_timestamp d"
proof -
  from assms have "sorted_wrt (\<lambda>a b. ed_timestamp a \<ge> ed_timestamp b) (take n s @ drop n s)"
    by simp
  then show "sorted_wrt (\<lambda>a b. ed_timestamp a \<ge> ed_timestamp b) (take n s)"
    and "\<forall>d \<in> set (take n s). \<forall>d' \<in> set (drop n s). ed_timestamp d' \<le> ed_timestamp d"
    unfolding sorted_wrt_append by blast+
qed

lemma mset_minus_take: "mset s - mset (take n s) = mset (drop n s)"
proof -
  have "mset s = mset (take n s) + mset (drop n s)"
    by (metis append_take_drop_id mset_append)
  then show ?thesis by simp
qed

lemma three_descending:
  assumes "ed_timestamp d1 < ed_timestamp d2" "ed_timestamp d2 < ed_timestamp d3"
    and "mset ds = {#d1, d2, d3#}"
  shows "sort_descending ds = [d3, d2, d1]"
  unfolding sort_descending_def
proof (rule properties_for_sort_key)
  show "mset [d3, d2, d1] = mset ds"
    using assms(3) by (simp add: add_mset_commute)
  show "sorted (map (\<lambda>d. - ed_timestamp d) [d3, d2, d1])"
    using assms(1,2) by simp
next
  fix k assume k: "k \<in> set [d3, d2, d1]"
  let ?P = "\<lambda>x. - ed_timestamp k = - ed_timestamp x"
  have "mset (filter ?P ds) = filter_mset ?P {#d1, d2, d3#}"
    using assms(3) by (metis mset_filter)
  also have "\<dots> = mset (filter ?P [d3, d2, d1])"
    using assms(1,2) k by auto
  finally have "mset (filter ?P ds) = mset (filter ?P [d3, d2, d1])" .
  moreover obtain x where "filter ?P [d3, d2, d1] = [x]"
    using assms(1,2) k by auto
  ultimately have "mset (filter ?P ds) = {#x#}"
    by (simp only: mset.simps)
  then have "filter ?P ds = [x]"
    by (simp only: mset_single_iff)
  with \<open>filter ?P [d3, d2, d1] = [x]\<close> show "filter ?P [d3, d2, d1] = filter ?P ds"
    by (simp only:)
qed

text \<open>
  Claim C6. When the store answers the query, \<^verbatim>\<open>/edit-history\<close> returns the documents of
  \<^verbatim>\<open>image_edits\<close> in descending order of timestamp, at most 50 of them (exactly 50 when
  there are more), and these are the most recent: no document left out is later than
  one returned. In particular three documents with timestamps \<open>T1 < T2 < T3\<close>, whatever
  the order of their insertion, come back as \<open>T3, T2, T1\<close>.
\<close>

theorem edit_history_latest_first:
  assumes "find_fails e (tick w) ''image_edits'' = None"
  shows "\<exists>h. fst (get_edit_history e w) = Returned \<lparr>history = h\<rparr> \<and>
     length h = min 50 (length (image_edits w)) \<and>
     sorted_wrt (\<lambda>a b. ed_timestamp a \<ge> ed_timestamp b) h \<and>
     mset h \<subseteq># mset (image_edits w) \<and>
     (\<forall>d \<in> set h. \<forall>d' \<in># mset (image_edits w) - mset h. ed_timestamp d' \<le> ed_timestamp d) \<and>
     (\<forall>d1 d2 d3. ed_timestamp d1 < ed_timestamp d2 \<and> ed_timestamp d2 < ed_timestamp d3 \<and>
        mset (image_edits w) = {#d1, d2, d3#} \<longrightarrow> h = [d3, d2, d1])"
proof -
  define s where "s = sort_descending (image_edits w)"
  define h where "h = take 50 s"
  have ret: "fst (get_edit_history e w) = Returned \<lparr>history = h\<rparr>"
    by (simp add: get_edit_history_ok[OF assms] h_def s_def)
  have ms: "mset s = mset (image_edits w)"
    by (simp add: s_def mset_sort_descending)
  then have "length s = length (image_edits w)"
    by (metis size_mset)
  then have len: "length h = min 50 (length (image_edits w))"
    by (simp add: h_def min.commute)
  have desc: "sorted_wrt (\<lambda>a b. ed_timestamp a \<ge> ed_timestamp b) s"
    by (simp add: s_def sort_descending_sorted)
  have sorted_h: "sorted_wrt (\<lambda>a b. ed_timestamp a \<ge> ed_timestamp b) h"
    unfolding h_def by (rule take_of_descending(1)[OF desc])
  have sub: "mset h \<subseteq># mset (image_edits w)"
    unfolding h_def ms[symmetric] by (metis append_take_drop_id mset_append mset_subset_eq_add_left)
  have recent: "\<forall>d \<in> set h. \<forall>d' \<in># mset (image_edits w) - mset h. ed_timestamp d' \<le> ed_timestamp d"
    unfolding h_def ms[symmetric] mset_minus_take
    using take_of_descending(2)[OF desc, of 50] by simp
  have three: "h = [d3, d2, d1]"
    if "ed_timestamp d1 < ed_timestamp d2" "ed_timestamp d2 < ed_timestamp d3"
      "mset (image_edits w) = {#d1, d2, d3#}" for d1 d2 d3
    unfolding h_def s_def three_descending[OF that] by simp
  from ret len sorted_h sub recent three show ?thesis by blast
qed

theorem edit_history_latest_first_witness:
  "find_fails sample_env (tick (empty_world\<lparr>image_edits := [sample_edit 1, sample_edit 2, sample_edit 3]\<rparr>))
     ''image_edits'' = None \<and>
   ed_timestamp (sample_edit 1) < ed_timestamp (sample_edit 2) \<and>
   ed_timestamp (sample_edit 2) < ed_timestamp (sample_edit 3) \<and>
   fst (get_edit_history sample_env
          (empty_world\<lparr>image_edits := [sample_edit 1, sample_edit 2, sample_edit 3]\<rparr>)) =
     Returned \<lparr>history = [sample_edit 3, sample_edit 2, sample_edit 1]\<rparr>"
proof -
  let ?w = "empty_world\<lparr>image_edits := [sample_edit 1, sample_edit 2, sample_edit 3]\<rparr>"
  have a: "find_fails sample_env (tick ?w) ''image_edits'' = None"
    by (simp add: sample_env_def)
  have b: "ed_timestamp (sample_edit 1) < ed_timestamp (sample_edit 2)"
    "ed_timestamp (sample_edit 2) < ed_timestamp (sample_edit 3)"
    by (simp_all add: sample_edit_def)
  have c: "mset (image_edits ?w) = {#sample_edit 1, sample_edit 2, sample_edit 3#}"
    by simp
  from edit_history_latest_first[OF a] b c a show ?thesis
    by blast
qed

section \<open>Properties of the handlers\<close>

subsection \<open>Rules for sequences of statements\<close>

lemma quiet_return: "quiet (return x)"
  by (simp add: quiet_def return_def)

lemma quiet_lift: "quiet (lift r)"
  by (simp add: quiet_def lift_def)

lemma quiet_now: "quiet (now e)"
  by (simp add: quiet_def now_def next_tick_def observe_def)

lemma quiet_new_uuid4: "quiet (new_uuid4 e)"
  by (simp add: quiet_def new_uuid4_def next_tick_def observe_def)

lemma quiet_write_file: "quiet (write_file e path bs)"
  by (simp add: quiet_def write_file_def next_tick_def observe_def split: option.splits)

lemma quiet_open_rb: "quiet (open_rb path)"
  by (simp add: quiet_def open_rb_def split: option.splits)

lemma quiet_unlink: "quiet (unlink e path)"
  by (simp add: quiet_def unlink_def next_tick_def observe_def split: option.splits)

lemma quiet_and_then: "quiet m \<Longrightarrow> (\<And>x. quiet (k x)) \<Longrightarrow> quiet (and_then m k)"
  unfolding quiet_def and_then_def
proof (intro allI)
  fix w
  assume m: "\<forall>w. observe (snd (m w)) = observe w" and k: "\<And>x. \<forall>w. observe (snd (k x w)) = observe w"
  obtain r w1 where mw: "m w = (r, w1)" by (cases "m w")
  with m have o1: "observe w1 = observe w" by (metis snd_conv)
  show "observe (snd (case m w of (Inl e, w') \<Rightarrow> (Inl e, w') | (Inr x, w') \<Rightarrow> k x w')) = observe w"
  proof (cases r)
    case (Inl err)
    with mw o1 show ?thesis by simp
  next
    case (Inr x)
    with mw o1 k[of x] show ?thesis by simp
  qed
qed

lemma quiet_temp_path: "quiet (temp_path e stem)"
  unfolding temp_path_def by (intro quiet_and_then quiet_new_uuid4 quiet_return)

lemma quiet_if: "quiet a \<Longrightarrow> quiet b \<Longrightarrow> quiet (if c then a else b)"
  by simp

lemma quiet_case_option: "quiet a \<Longrightarrow> (\<And>p. quiet (b p)) \<Longrightarrow> quiet (case x of None \<Rightarrow> a | Some p \<Rightarrow> b p)"
  by (cases x) simp_all

lemmas quiet_rules = quiet_return quiet_lift quiet_now quiet_new_uuid4 quiet_write_file
  quiet_open_rb quiet_unlink quiet_temp_path quiet_and_then quiet_if quiet_case_option

lemma hoare_then:
  assumes "hoare P m R"
    and "\<And>x. hoare (R (Inr x)) (k x) Q"
    and "\<And>err ob. R (Inl err) ob \<Longrightarrow> Q (Inl err) ob"
  shows "hoare P (and_then m k) Q"
  unfolding hoare_def
proof (intro allI impI)
  fix w assume P: "P (observe w)"
  obtain r w1 where mw: "m w = (r, w1)" by (cases "m w")
  with assms(1) P have R: "R r (observe w1)"
    unfolding hoare_def by (metis fst_conv snd_conv)
  show "Q (fst (and_then m k w)) (observe (snd (and_then m k w)))"
  proof (cases r)
    case (Inl err)
    with mw R assms(3) show ?thesis by (simp add: and_then_def)
  next
    case (Inr x)
    with mw R assms(2)[of x] show ?thesis by (simp add: and_then_def hoare_def)
  qed
qed

lemma hoare_quiet: "quiet m \<Longrightarrow> hoare P m (\<lambda>_. P)"
  by (simp add: hoare_def quiet_def)

lemma hoare_quiet_then:
  assumes "quiet m"
    and "\<And>x. hoare P (k x) Q"
    and "\<And>err ob. P ob \<Longrightarrow> Q (Inl err) ob"
  shows "hoare P (and_then m k) Q"
  by (rule hoare_then[OF hoare_quiet[OF assms(1)]]) (use assms(2,3) in auto)

lemma hoare_return: "(\<And>ob. P ob \<Longrightarrow> Q (Inr x) ob) \<Longrightarrow> hoare P (return x) Q"
  by (simp add: hoare_def return_def)

lemma hoare_weaken: "hoare P m Q \<Longrightarrow> (\<And>r ob. Q r ob \<Longrightarrow> Q' r ob) \<Longrightarrow> hoare P m Q'"
  by (simp add: hoare_def)

lemma hoareD: "hoare P m Q \<Longrightarrow> P (observe w) \<Longrightarrow> m w = (r, w') \<Longrightarrow> Q r (observe w')"
  by (auto simp: hoare_def)

subsection \<open>The edit operations and the store\<close>

lemmas io_defs = and_then_def return_def lift_def now_def new_uuid4_def
  download_image_as_base64_def insert_image_edit_def new_ImageEditRequest_def next_tick_def

lemma store_result_effect:
  "store_result e op prompt start output w = (r, w') \<Longrightarrow>
     provider_calls w' = provider_calls w \<and>
     (image_edits w' = image_edits w \<and> (downloads w' = downloads w \<or> isl r) \<or>
      (\<exists>url t content d. result_url output = Inr url \<and> http_get e t url = Inr content \<and>
         downloads w' = downloads w @ [url] \<and> image_edits w' = image_edits w @ [d] \<and>
         ed_result_image_base64 d = b64encode content))"
  unfolding store_result_def io_defs
  by (auto split: sum.splits prod.splits option.splits simp: merge_dicts_def; blast)

lemma run_effect:
  "run e c model input w = (r, w1) \<Longrightarrow>
     image_edits w1 = image_edits w \<and> downloads w1 = downloads w \<and>
     provider_calls w1 = provider_calls w @ [(model, input)] \<and>
     (\<forall>output. r = Inr output \<longrightarrow> provider_run e (tick w) c model input = Inr output)"
  by (auto simp: run_def next_tick_def)

lemma edit_tail:
  assumes cleanup: "\<And>response. quiet (cleanup response)"
  shows "hoare (\<lambda>ob. ob = before)
           (and_then (run e c model input) (\<lambda>output.
            and_then (store_result e op prompt start output) cleanup))
           (\<lambda>_ after. fst after = fst before \<or> stored_after_success e c before after)"
  unfolding hoare_def
proof (intro allI impI)
  fix w
  let ?m = "and_then (run e c model input) (\<lambda>output.
            and_then (store_result e op prompt start output) cleanup)"
  assume "observe w = before"
  then have before: "before = (image_edits w, provider_calls w, downloads w)"
    by (simp add: observe_def)
  obtain r1 w1 where run: "run e c model input w = (r1, w1)"
    by (cases "run e c model input w")
  from run_effect[OF run]
  have r: "image_edits w1 = image_edits w" "downloads w1 = downloads w"
    "provider_calls w1 = provider_calls w @ [(model, input)]"
    and answered: "\<And>output. r1 = Inr output \<Longrightarrow> provider_run e (tick w) c model input = Inr output"
    by simp_all
  show "fst (observe (snd (?m w))) = fst before \<or>
        stored_after_success e c before (observe (snd (?m w)))"
  proof (cases r1)
    case (Inl err)
    with run have "?m w = (Inl err, w1)"
      by (simp add: and_then_def)
    with r show ?thesis
      by (simp add: before observe_def)
  next
    case (Inr out)
    obtain r2 w2 where st: "store_result e op prompt start out w1 = (r2, w2)"
      by (cases "store_result e op prompt start out w1")
    have final: "observe (snd (?m w)) = observe w2"
    proof (cases r2)
      case (Inl err)
      with run \<open>r1 = Inr out\<close> st show ?thesis by (simp add: and_then_def)
    next
      case (Inr response)
      with run \<open>r1 = Inr out\<close> st cleanup[of response] show ?thesis
        by (simp add: and_then_def quiet_def)
    qed
    from store_result_effect[OF st]
    have calls: "provider_calls w2 = provider_calls w1"
      and edits: "image_edits w2 = image_edits w1 \<or>
        (\<exists>url t content d. result_url out = Inr url \<and> http_get e t url = Inr content \<and>
           downloads w2 = downloads w1 @ [url] \<and> image_edits w2 = image_edits w1 @ [d] \<and>
           ed_result_image_base64 d = b64encode content)"
      by auto
    from edits show ?thesis
    proof
      assume "image_edits w2 = image_edits w1"
      with r show ?thesis unfolding final by (simp add: before observe_def)
    next
      assume "\<exists>url t content d. result_url out = Inr url \<and> http_get e t url = Inr content \<and>
           downloads w2 = downloads w1 @ [url] \<and> image_edits w2 = image_edits w1 @ [d] \<and>
           ed_result_image_base64 d = b64encode content"
      then obtain url t content d where "result_url out = Inr url"
        "http_get e t url = Inr content" "downloads w2 = downloads w1 @ [url]"
        "image_edits w2 = image_edits w1 @ [d]" "ed_result_image_base64 d = b64encode content"
        by blast
      with r calls answered[OF Inr]
      have "stored_after_success e c before (observe w2)"
        unfolding stored_after_success_def before observe_def by auto
      then show ?thesis unfolding final by simp
    qed
  qed
qed

lemma hoare_case_prod:
  "(\<And>a b. hoare P (f a b) Q) \<Longrightarrow> hoare P (case x of (a, b) \<Rightarrow> f a b) Q"
  by (cases x) simp

lemma remove_object_body:
  "hoare (\<lambda>ob. ob = before) (remove_object_steps e c image_base64 mask_base64 prompt)
     (\<lambda>_ after. fst after = fst before \<or> stored_after_success e c before after)"
  unfolding remove_object_steps_def
  apply ((rule hoare_quiet_then, rule quiet_rules)+)
           apply (rule edit_tail)
           apply (intro quiet_rules)
          apply simp_all
  done

lemma text_guided_edit_body:
  "hoare (\<lambda>ob. ob = before) (text_guided_edit_steps e c image_base64 prompt negative_prompt)
     (\<lambda>_ after. fst after = fst before \<or> stored_after_success e c before after)"
  unfolding text_guided_edit_steps_def
  apply ((rule hoare_quiet_then, rule quiet_rules)+)
       apply (rule edit_tail)
       apply (intro quiet_rules)
      apply simp_all
  done

lemma add_object_body:
  "hoare (\<lambda>ob. ob = before) (add_object_steps e c image_base64 prompt mask_base64)
     (\<lambda>_ after. fst after = fst before \<or> stored_after_success e c before after)"
  unfolding add_object_steps_def
  apply ((rule hoare_quiet_then, (intro quiet_rules)?)+)
         apply (rule hoare_case_prod)+
         apply (rule edit_tail)
         apply (intro quiet_rules)
        apply simp_all
  done

lemma edit_endpoint_effect:
  assumes "edit_endpoint e replicate_client request w = (r, w')"
  shows "image_edits w' = image_edits w \<or>
         (\<exists>c. replicate_client = Some c \<and> stored_after_success e c (observe w) (observe w'))"
proof (cases replicate_client)
  case None
  with assms show ?thesis
    by (auto simp: edit_endpoint_def remove_object_def add_object_def text_guided_edit_def
             split: edit_request.splits)
next
  case (Some c)
  have guarded: "image_edits w' = image_edits w \<or> stored_after_success e c (observe w) (observe w')"
    if h: "hoare (\<lambda>ob. ob = observe w) body
             (\<lambda>_ after. fst after = fst (observe w) \<or> stored_after_success e c (observe w) after)"
      and run: "try_except prefix body w = (r, w')" for prefix and body :: "ImageEditResponse io"
  proof -
    obtain r0 where "body w = (r0, w')"
      using run by (auto simp: try_except_def split: prod.splits sum.splits)
    from hoareD[OF h _ this] show ?thesis
      by (simp add: observe_def)
  qed
  show ?thesis
  proof (cases request)
    case (RemoveObject image_base64 mask_base64 prompt)
    with assms Some show ?thesis
      using guarded[OF remove_object_body]
      by (simp add: edit_endpoint_def remove_object_def)
  next
    case (AddObject image_base64 prompt mask_base64)
    with assms Some show ?thesis
      using guarded[OF add_object_body]
      by (simp add: edit_endpoint_def add_object_def)
  next
    case (TextGuidedEdit image_base64 prompt negative_prompt)
    with assms Some show ?thesis
      using guarded[OF text_guided_edit_body]
      by (simp add: edit_endpoint_def text_guided_edit_def)
  qed
qed

text \<open>
  Claim C1. For each of the three edit operations: the collection of edit records
  changes only by one record appended, and only when the request to the provider was
  answered and the download of the result succeeded, the record holding the encoding
  of the downloaded bytes. So when the inference call fails, or the download fails, no
  edit record is written.
\<close>

theorem failed_edit_writes_no_record:
  assumes "edit_endpoint e replicate_client request w = (r, w')"
  shows "(image_edits w' \<noteq> image_edits w \<longrightarrow>
            (\<exists>c t model input output url t' content d.
               replicate_client = Some c \<and>
               provider_calls w' = provider_calls w @ [(model, input)] \<and>
               provider_run e t c model input = Inr output \<and>
               result_url output = Inr url \<and>
               downloads w' = downloads w @ [url] \<and>
               http_get e t' url = Inr content \<and>
               image_edits w' = image_edits w @ [d] \<and>
               ed_result_image_base64 d = b64encode content)) \<and>
         ((\<forall>c. replicate_client = Some c \<longrightarrow> (\<forall>t model input. isl (provider_run e t c model input)))
            \<or> (\<forall>t url. isl (http_get e t url))
          \<longrightarrow> image_edits w' = image_edits w)"
proof -
  have stored: "\<exists>c t model input output url t' content d.
               replicate_client = Some c \<and>
               provider_calls w' = provider_calls w @ [(model, input)] \<and>
               provider_run e t c model input = Inr output \<and>
               result_url output = Inr url \<and>
               downloads w' = downloads w @ [url] \<and>
               http_get e t' url = Inr content \<and>
               image_edits w' = image_edits w @ [d] \<and>
               ed_result_image_base64 d = b64encode content"
    if "image_edits w' \<noteq> image_edits w"
  proof -
    from edit_endpoint_effect[OF assms] that obtain c where
      c: "replicate_client = Some c" and s: "stored_after_success e c (observe w) (observe w')"
      by blast
    from s c show ?thesis
      unfolding stored_after_success_def observe_def by (simp only: prod.case) blast
  qed
  have "image_edits w' = image_edits w"
    if fails: "(\<forall>c. replicate_client = Some c \<longrightarrow> (\<forall>t model input. isl (provider_run e t c model input)))
            \<or> (\<forall>t url. isl (http_get e t url))"
  proof (rule ccontr)
    assume "image_edits w' \<noteq> image_edits w"
    from stored[OF this] obtain c t model input out url t' content where
      "replicate_client = Some c" "provider_run e t c model input = Inr out"
      "http_get e t' url = Inr content"
      by blast
    with fails show False
      by (metis sum.disc(2))
  qed
  with stored show ?thesis by blast
qed

theorem failed_edit_writes_no_record_witness:
  "(\<forall>t model input. isl (provider_run sample_env t no_token model input)) \<and>
   fst (edit_endpoint sample_env (Some no_token)
          (RemoveObject ''AQID'' ''BAM='' ''remove it'') empty_world) =
     HTTPException 500 ''Failed to remove object: Unauthenticated'' \<and>
   image_edits (snd (edit_endpoint sample_env (Some no_token)
          (RemoveObject ''AQID'' ''BAM='' ''remove it'') empty_world)) = []"
proof -
  let ?run = "edit_endpoint sample_env (Some no_token)
          (RemoveObject ''AQID'' ''BAM='' ''remove it'') empty_world"
  have a: "\<forall>c. Some no_token = Some c \<longrightarrow>
      (\<forall>t model input. isl (provider_run sample_env t c model input))"
    by (simp add: sample_env_def no_token_def)
  have b: "fst ?run = HTTPException 500 ''Failed to remove object: Unauthenticated''"
    by code_simp
  have c: "?run = (fst ?run, snd ?run)"
    by simp
  from failed_edit_writes_no_record[OF c] a
  have "image_edits (snd ?run) = image_edits empty_world"
    by blast
  with a b show ?thesis
    by (simp add: empty_world_def)
qed

subsection \<open>Errors at the boundary of a handler\<close>

text \<open>When \<^verbatim>\<open>replicate_client\<close> is \<^verbatim>\<open>None\<close>, each edit handler answers ``not configured''
  at once and leaves the world untouched.\<close>

lemma not_configured_gate:
  "edit_endpoint e None request w = (not_configured, w)"
  by (simp add: edit_endpoint_def remove_object_def add_object_def text_guided_edit_def
      split: edit_request.splits)

lemma converts_try_except: "converts prefix steps (try_except prefix steps)"
  by (simp add: converts_def try_except_def)

lemma try_except_not_uncaught: "fst (try_except prefix steps w) \<noteq> Uncaught f"
  by (simp add: try_except_def split: prod.splits sum.splits)

lemma try_except_failure:
  "fst (steps w) = Inl err \<Longrightarrow>
     fst (try_except prefix steps w) = HTTPException 500 (prefix @ msg err)"
  by (auto simp: try_except_def split: prod.splits sum.splits)

lemma edit_endpoint_Some:
  "edit_endpoint e (Some c) request = try_except (edit_prefix request) (edit_steps e c request)"
  by (cases request)
     (simp_all add: edit_endpoint_def edit_prefix_def edit_steps_def remove_object_def
        add_object_def text_guided_edit_def)

lemmas step_defs = and_then_def now_def lift_def return_def temp_path_def new_uuid4_def
  write_file_def open_rb_def run_def next_tick_def in_upload_dir_def

lemmas all_steps_defs = edit_steps_def remove_object_steps_def add_object_steps_def
  text_guided_edit_steps_def

lemma image_decode_failure:
  "b64decode (image_field request) = Inl err \<Longrightarrow> fst (edit_steps e c request w) = Inl err"
  by (cases request) (simp_all add: all_steps_defs image_field_def and_then_def now_def lift_def)

lemma provider_failure:
  assumes "decodable request" and "writes_succeed e"
    and "\<And>t model input. provider_run e t c model input = Inl err"
  shows "fst (edit_steps e c request w) = Inl err"
proof (cases request)
  case (RemoveObject image_base64 mask_base64 prompt)
  with assms(1) obtain image_data mask_data where
    "b64decode image_base64 = Inr image_data" "b64decode mask_base64 = Inr mask_data"
    by (auto simp: decodable_def image_field_def mask_fields_def)
  with assms(2,3) RemoveObject show ?thesis
    by (simp add: all_steps_defs step_defs writes_succeed_def)
next
  case (AddObject image_base64 prompt mask_base64)
  with assms(1) obtain image_data where i: "b64decode image_base64 = Inr image_data"
    by (auto simp: decodable_def image_field_def)
  show ?thesis
  proof (cases "truthy mask_base64")
    case True
    with assms(1) AddObject obtain mask_data where "b64decode (the mask_base64) = Inr mask_data"
      by (auto simp: decodable_def mask_fields_def)
    with assms(2,3) AddObject i True show ?thesis
      by (simp add: all_steps_defs step_defs writes_succeed_def)
  next
    case False
    with assms(2,3) AddObject i show ?thesis
      by (simp add: all_steps_defs step_defs writes_succeed_def)
  qed
next
  case (TextGuidedEdit image_base64 prompt negative_prompt)
  with assms(1) obtain image_data where "b64decode image_base64 = Inr image_data"
    by (auto simp: decodable_def image_field_def)
  with assms(2,3) TextGuidedEdit show ?thesis
    by (simp add: all_steps_defs step_defs writes_succeed_def)
qed

lemmas store_defs = store_result_def download_image_as_base64_def new_ImageEditRequest_def
  insert_image_edit_def

lemma download_failure:
  assumes "decodable request" and "writes_succeed e"
    and "\<And>t model input. provider_run e t c model input = Inr answer"
    and "result_url answer = Inr url"
    and "\<And>t. http_get e t url = Inl err"
  shows "fst (edit_steps e c request w) = Inl err"
proof (cases request)
  case (RemoveObject image_base64 mask_base64 prompt)
  with assms(1) obtain image_data mask_data where
    "b64decode image_base64 = Inr image_data" "b64decode mask_base64 = Inr mask_data"
    by (auto simp: decodable_def image_field_def mask_fields_def)
  with assms(2-) RemoveObject show ?thesis
    by (simp add: all_steps_defs step_defs store_defs writes_succeed_def)
next
  case (AddObject image_base64 prompt mask_base64)
  with assms(1) obtain image_data where i: "b64decode image_base64 = Inr image_data"
    by (auto simp: decodable_def image_field_def)
  show ?thesis
  proof (cases "truthy mask_base64")
    case True
    with assms(1) AddObject obtain mask_data where "b64decode (the mask_base64) = Inr mask_data"
      by (auto simp: decodable_def mask_fields_def)
    with assms(2-) AddObject i True show ?thesis
      by (simp add: all_steps_defs step_defs store_defs writes_succeed_def)
  next
    case False
    with assms(2-) AddObject i show ?thesis
      by (simp add: all_steps_defs step_defs store_defs writes_succeed_def)
  qed
next
  case (TextGuidedEdit image_base64 prompt negative_prompt)
  with assms(1) obtain image_data where "b64decode image_base64 = Inr image_data"
    by (auto simp: decodable_def image_field_def)
  with assms(2-) TextGuidedEdit show ?thesis
    by (simp add: all_steps_defs step_defs store_defs writes_succeed_def)
qed

lemma store_failure:
  assumes "decodable request" and "writes_succeed e"
    and "\<And>t model input. provider_run e t c model input = Inr answer"
    and "result_url answer = Inr url"
    and "\<And>t. http_get e t url = Inr bs"
    and "\<And>t. insert_fails e t ''image_edits'' = Some err"
  shows "fst (edit_steps e c request w) = Inl err"
proof (cases request)
  case (RemoveObject image_base64 mask_base64 prompt)
  with assms(1) obtain image_data mask_data where
    "b64decode image_base64 = Inr image_data" "b64decode mask_base64 = Inr mask_data"
    by (auto simp: decodable_def image_field_def mask_fields_def)
  with assms(2-) RemoveObject show ?thesis
    by (simp add: all_steps_defs step_defs store_defs writes_succeed_def)
next
  case (AddObject image_base64 prompt mask_base64)
  with assms(1) obtain image_data where i: "b64decode image_base64 = Inr image_data"
    by (auto simp: decodable_def image_field_def)
  show ?thesis
  proof (cases "truthy mask_base64")
    case True
    with assms(1) AddObject obtain mask_data where "b64decode (the mask_base64) = Inr mask_data"
      by (auto simp: decodable_def mask_fields_def)
    with assms(2-) AddObject i True show ?thesis
      by (simp add: all_steps_defs step_defs store_defs writes_succeed_def)
  next
    case False
    with assms(2-) AddObject i show ?thesis
      by (simp add: all_steps_defs step_defs store_defs writes_succeed_def)
  qed
next
  case (TextGuidedEdit image_base64 prompt negative_prompt)
  with assms(1) obtain image_data where "b64decode image_base64 = Inr image_data"
    by (auto simp: decodable_def image_field_def)
  with assms(2-) TextGuidedEdit show ?thesis
    by (simp add: all_steps_defs step_defs store_defs writes_succeed_def)
qed

text \<open>
  Claim C3, for the handlers that have a \<^verbatim>\<open>try\<close> around their statements
  (\<^verbatim>\<open>create_mask\<close>, \<^verbatim>\<open>remove_object\<close>, \<^verbatim>\<open>add_object\<close>, \<^verbatim>\<open>text_guided_edit\<close>): whatever failure
  the statements raise, the handler answers with status 500 and the detail made of its
  prefix followed by the message of that failure, and what the statements return the
  handler returns; no exception leaves these handlers uncaught. In particular a failure
  to produce the mask or to write its PNG file, an image field that does not decode, a
  provider call that fails, a download that fails and a store that refuses the insert
  each give the 500 response with the message of that very failure.
\<close>

theorem guarded_handlers_convert_failures:
  "converts ''Failed to create mask: '' (create_mask_steps e image_base64 mask_data)
     (create_mask e image_base64 mask_data) \<and>
   converts (edit_prefix request) (edit_steps e c request) (edit_endpoint e (Some c) request) \<and>
   (\<forall>f. fst (create_mask e image_base64 mask_data w) \<noteq> Uncaught f) \<and>
   (\<forall>f. fst (edit_endpoint e replicate_client request w) \<noteq> Uncaught f) \<and>
   (\<forall>err. create_mask_image e image_base64 mask_data = Inl err \<longrightarrow>
      create_mask e image_base64 mask_data w =
        (HTTPException 500 (''Failed to create mask: '' @ msg err), w)) \<and>
   (\<forall>m err. create_mask_image e image_base64 mask_data = Inr m \<and> png_save e m = Inl err \<longrightarrow>
      create_mask e image_base64 mask_data w =
        (HTTPException 500 (''Failed to create mask: '' @ msg err), w)) \<and>
   (\<forall>err. b64decode (image_field request) = Inl err \<longrightarrow>
      fst (edit_endpoint e (Some c) request w) =
        HTTPException 500 (edit_prefix request @ msg err)) \<and>
   (\<forall>err. decodable request \<and> writes_succeed e \<and>
        (\<forall>t model input. provider_run e t c model input = Inl err) \<longrightarrow>
      fst (edit_endpoint e (Some c) request w) =
        HTTPException 500 (edit_prefix request @ msg err)) \<and>
   (\<forall>err answer url. decodable request \<and> writes_succeed e \<and>
        (\<forall>t model input. provider_run e t c model input = Inr answer) \<and>
        result_url answer = Inr url \<and> (\<forall>t. http_get e t url = Inl err) \<longrightarrow>
      fst (edit_endpoint e (Some c) request w) =
        HTTPException 500 (edit_prefix request @ msg err)) \<and>
   (\<forall>err answer url bs. decodable request \<and> writes_succeed e \<and>
        (\<forall>t model input. provider_run e t c model input = Inr answer) \<and>
        result_url answer = Inr url \<and> (\<forall>t. http_get e t url = Inr bs) \<and>
        (\<forall>t. insert_fails e t ''image_edits'' = Some err) \<longrightarrow>
      fst (edit_endpoint e (Some c) request w) =
        HTTPException 500 (edit_prefix request @ msg err))"
proof -
  have c1: "converts ''Failed to create mask: '' (create_mask_steps e image_base64 mask_data)
     (create_mask e image_base64 mask_data)"
    unfolding create_mask_def by (rule converts_try_except)
  have c2: "converts (edit_prefix request) (edit_steps e c request)
     (edit_endpoint e (Some c) request)"
    unfolding edit_endpoint_Some by (rule converts_try_except)
  have u1: "\<forall>f. fst (create_mask e image_base64 mask_data w) \<noteq> Uncaught f"
    unfolding create_mask_def by (simp add: try_except_not_uncaught)
  have u2: "\<forall>f. fst (edit_endpoint e replicate_client request w) \<noteq> Uncaught f"
  proof (cases replicate_client)
    case None
    then show ?thesis by (simp add: not_configured_gate not_configured_def)
  next
    case (Some client)
    then show ?thesis by (simp add: edit_endpoint_Some try_except_not_uncaught)
  qed
  have m1: "\<forall>err. create_mask_image e image_base64 mask_data = Inl err \<longrightarrow>
      create_mask e image_base64 mask_data w =
        (HTTPException 500 (''Failed to create mask: '' @ msg err), w)"
    by (simp add: create_mask_answer)
  have m2: "\<forall>m err. create_mask_image e image_base64 mask_data = Inr m \<and> png_save e m = Inl err \<longrightarrow>
      create_mask e image_base64 mask_data w =
        (HTTPException 500 (''Failed to create mask: '' @ msg err), w)"
    by (simp add: create_mask_answer)
  have e1: "\<forall>err. b64decode (image_field request) = Inl err \<longrightarrow>
      fst (edit_endpoint e (Some c) request w) =
        HTTPException 500 (edit_prefix request @ msg err)"
    unfolding edit_endpoint_Some
    by (intro allI impI try_except_failure image_decode_failure)
  have e2: "\<forall>err. decodable request \<and> writes_succeed e \<and>
        (\<forall>t model input. provider_run e t c model input = Inl err) \<longrightarrow>
      fst (edit_endpoint e (Some c) request w) =
        HTTPException 500 (edit_prefix request @ msg err)"
    unfolding edit_endpoint_Some
    by (intro allI impI try_except_failure provider_failure) simp_all
  have e3: "\<forall>err answer url. decodable request \<and> writes_succeed e \<and>
        (\<forall>t model input. provider_run e t c model input = Inr answer) \<and>
        result_url answer = Inr url \<and> (\<forall>t. http_get e t url = Inl err) \<longrightarrow>
      fst (edit_endpoint e (Some c) request w) =
        HTTPException 500 (edit_prefix request @ msg err)"
    unfolding edit_endpoint_Some
  proof (intro allI impI try_except_failure)
    fix err answer url
    assume "decodable request \<and> writes_succeed e \<and>
        (\<forall>t model input. provider_run e t c model input = Inr answer) \<and>
        result_url answer = Inr url \<and> (\<forall>t. http_get e t url = Inl err)"
    then show "fst (edit_steps e c request w) = Inl err"
      using download_failure[of request e c answer url err w] by blast
  qed
  have e4: "\<forall>err answer url bs. decodable request \<and> writes_succeed e \<and>
        (\<forall>t model input. provider_run e t c model input = Inr answer) \<and>
        result_url answer = Inr url \<and> (\<forall>t. http_get e t url = Inr bs) \<and>
        (\<forall>t. insert_fails e t ''image_edits'' = Some err) \<longrightarrow>
      fst (edit_endpoint e (Some c) request w) =
        HTTPException 500 (edit_prefix request @ msg err)"
    unfolding edit_endpoint_Some
  proof (intro allI impI try_except_failure)
    fix err answer url bs
    assume "decodable request \<and> writes_succeed e \<and>
        (\<forall>t model input. provider_run e t c model input = Inr answer) \<and>
        result_url answer = Inr url \<and> (\<forall>t. http_get e t url = Inr bs) \<and>
        (\<forall>t. insert_fails e t ''image_edits'' = Some err)"
    then show "fst (edit_steps e c request w) = Inl err"
      using store_failure[of request e c answer url bs err w] by blast
  qed
  show ?thesis
    by (intro conjI) (rule c1 c2 u1 u2 m1 m2 e1 e2 e3 e4)+
qed

theorem guarded_handlers_convert_failures_witness:
  "create_mask_image sample_env ''A'' ''[[1, 1, 2, 2]]'' = Inl (invalid_length 1) \<and>
   create_mask sample_env ''A'' ''[[1, 1, 2, 2]]'' empty_world =
     (HTTPException 500
        (''Failed to create mask: '' @
         ''Invalid base64-encoded string: number of data characters (1) cannot be 1 more than a multiple of 4''),
      empty_world) \<and>
   decodable (RemoveObject ''AQID'' ''BAM='' ''remove it'') \<and> writes_succeed sample_env \<and>
   (\<forall>t model input. provider_run sample_env t no_token model input =
      Inl (Failure ''ReplicateError'' ''Unauthenticated'')) \<and>
   fst (edit_endpoint sample_env (Some no_token) (RemoveObject ''AQID'' ''BAM='' ''remove it'')
          empty_world) =
     HTTPException 500 (''Failed to remove object: '' @ ''Unauthenticated'')"
proof -
  let ?request = "RemoveObject ''AQID'' ''BAM='' ''remove it''"
  note t = guarded_handlers_convert_failures[of sample_env "''A''" "''[[1, 1, 2, 2]]''"
      ?request no_token empty_world "Some no_token"]
  have a: "create_mask_image sample_env ''A'' ''[[1, 1, 2, 2]]'' = Inl (invalid_length 1)"
    by code_simp
  have m: "msg (invalid_length 1) =
      ''Invalid base64-encoded string: number of data characters (1) cannot be 1 more than a multiple of 4''"
    by code_simp
  have b: "decodable ?request"
  proof -
    have "b64decode ''AQID'' = Inr [1, 2, 3]" "b64decode ''BAM='' = Inr [4, 3]"
      by code_simp+
    then show ?thesis
      by (simp add: decodable_def image_field_def mask_fields_def)
  qed
  have c: "writes_succeed sample_env"
    by (simp add: writes_succeed_def sample_env_def)
  have d: "\<forall>t model input. provider_run sample_env t no_token model input =
      Inl (Failure ''ReplicateError'' ''Unauthenticated'')"
    by (simp add: sample_env_def no_token_def)
  from t a have "create_mask sample_env ''A'' ''[[1, 1, 2, 2]]'' empty_world =
      (HTTPException 500 (''Failed to create mask: '' @ msg (invalid_length 1)), empty_world)"
    by blast
  then have r1: "create_mask sample_env ''A'' ''[[1, 1, 2, 2]]'' empty_world =
     (HTTPException 500
        (''Failed to create mask: '' @
         ''Invalid base64-encoded string: number of data characters (1) cannot be 1 more than a multiple of 4''),
      empty_world)"
    by (simp only: m)
  from t b c d have "fst (edit_endpoint sample_env (Some no_token) ?request empty_world) =
      HTTPException 500 (edit_prefix ?request @ msg (Failure ''ReplicateError'' ''Unauthenticated''))"
    by blast
  then have r2: "fst (edit_endpoint sample_env (Some no_token) ?request empty_world) =
      HTTPException 500 (''Failed to remove object: '' @ ''Unauthenticated'')"
    by (simp add: edit_prefix_def)
  show ?thesis
    by (intro conjI) (rule a r1 b c d r2)+
qed

text \<open>
  Claim C3 as stated, for every handler, fails: \<^verbatim>\<open>age_verify\<close> has no \<^verbatim>\<open>try\<close>, and when
  the store cannot be reached the exception of \<^verbatim>\<open>insert_one\<close> leaves the handler
  uncaught.
\<close>

theorem age_verify_failure_escapes:
  "fst (age_verify sample_env_store_down \<lparr>verified = True, av_timestamp = 0\<rparr> empty_world) =
     Uncaught store_down"
  by (simp add: age_verify_def no_try_def and_then_def insert_age_verification_def
      sample_env_store_down_def sample_env_def empty_world_def)

text \<open>
  Claim C2 at a process started without \<^verbatim>\<open>REPLICATE_API_KEY\<close>: the constructor is given
  \<^verbatim>\<open>None\<close> and raises nothing, so \<^verbatim>\<open>replicate_client\<close> is a client and not \<^verbatim>\<open>None\<close>.
  \<^verbatim>\<open>remove_object\<close> then passes its check, writes both temporary files and sends the
  request to the provider; the answer is ``Failed to remove object: ...'', not the
  ``not configured'' response.
\<close>

theorem missing_key_reaches_provider:
  "init_replicate_client replicate_Client Map.empty = Some no_token \<and>
   fst (remove_object sample_env (init_replicate_client replicate_Client Map.empty)
          ''AQID'' ''BAM='' ''remove it'' empty_world) =
     HTTPException 500 ''Failed to remove object: Unauthenticated'' \<and>
   provider_calls (snd (remove_object sample_env (init_replicate_client replicate_Client Map.empty)
          ''AQID'' ''BAM='' ''remove it'' empty_world)) =
     [(''zsxkib/flux-dev-inpainting'',
       [(''image'', PFile [1, 2, 3]), (''mask'', PFile [4, 3]), (''prompt'', PStr ''remove it''),
        (''strength'', PFloat ''0.95''), (''guidance_scale'', PFloat ''7.5''),
        (''num_inference_steps'', PInt 50)])] \<and>
   files (snd (remove_object sample_env (init_replicate_client replicate_Client Map.empty)
          ''AQID'' ''BAM='' ''remove it'' empty_world)) ''uploads/temp_image_uu.png'' = Some [1, 2, 3] \<and>
   files (snd (remove_object sample_env (init_replicate_client replicate_Client Map.empty)
          ''AQID'' ''BAM='' ''remove it'' empty_world)) ''uploads/temp_mask_uuu.png'' = Some [4, 3]"
  by code_simp

text \<open>
  Claim C7. An upload whose declared content type does not start with \<^verbatim>\<open>image/\<close> is
  answered with status 400, and the world is left as it was: no record in the store,
  no file on disk.
\<close>

theorem non_image_upload_rejected:
  assumes "content_type file = Some declared" and "\<not> startswith declared ''image/''"
  shows "upload_image e file w = (HTTPException 400 ''File must be an image'', w)"
  using assms by (simp add: upload_image_def)

theorem non_image_upload_rejected_witness:
  "content_type sample_upload = Some ''text/plain'' \<and> \<not> startswith ''text/plain'' ''image/'' \<and>
   upload_image sample_env sample_upload empty_world =
     (HTTPException 400 ''File must be an image'', empty_world)"
proof -
  have a: "content_type sample_upload = Some ''text/plain''"
    by (simp add: sample_upload_def)
  have b: "\<not> startswith ''text/plain'' ''image/''"
    by (simp add: startswith_def)
  from a b non_image_upload_rejected[OF a b] show ?thesis by blast
qed

text \<open>
  Claim C10. When the store takes the insert, \<^verbatim>\<open>age_verify\<close> appends the record it was
  given and returns \<^verbatim>\<open>{"status": "verified", "message": "Age verification completed"}\<close>,
  whatever the \<^verbatim>\<open>verified\<close> flag; the answer is the same for either value of the flag.
\<close>

theorem age_verify_ignores_flag:
  assumes "insert_fails e (tick w) ''age_verifications'' = None"
  shows "age_verify e verification w =
           (Returned \<lparr>status = ''verified'', message = ''Age verification completed''\<rparr>,
            (next_tick w)\<lparr>age_verifications := age_verifications w @ [verification]\<rparr>) \<and>
         fst (age_verify e (verification\<lparr>verified := flag\<rparr>) w) = fst (age_verify e verification w)"
  using assms
  by (simp add: age_verify_def no_try_def and_then_def insert_age_verification_def return_def)

theorem age_verify_ignores_flag_witness:
  "insert_fails sample_env (tick empty_world) ''age_verifications'' = None \<and>
   age_verify sample_env \<lparr>verified = False, av_timestamp = 7\<rparr> empty_world =
     (Returned \<lparr>status = ''verified'', message = ''Age verification completed''\<rparr>,
      (next_tick empty_world)\<lparr>age_verifications :=
         age_verifications empty_world @ [\<lparr>verified = False, av_timestamp = 7\<rparr>]\<rparr>)"
proof -
  have a: "insert_fails sample_env (tick empty_world) ''age_verifications'' = None"
    by (simp add: sample_env_def)
  from a age_verify_ignores_flag[OF a] show ?thesis by blast
qed

end
